theory Spec2Isabelle
  imports Main "HOL-Library.Sublist"
begin

section \<open>SQL values and three-valued conditions\<close>

text \<open>
  The loader \<^verbatim>\<open>scripts/load_data_duckdb.py\<close> is a sequence of SQL statements run
  against one DuckDB connection. A nullable column is an \<open>option\<close> (\<open>None\<close> is
  NULL); a table is the list of its rows in insertion order; a \<open>DECIMAL(p,2)\<close> is
  the integer number of hundredths; a \<open>DATE\<close> is a day number and a \<open>TIMESTAMP\<close> a
  number of microseconds. \<open>INTEGER\<close> surrogate keys are unbounded integers here
  (the narrowing of \<open>ROW_NUMBER()\<close> to 32 bits is not modelled).
\<close>

type_synonym decimal = int
type_synonym date = int
type_synonym timestamp = int

datatype error = InvalidInputError | ConstraintError | CatalogError

text \<open>\<open>a = b\<close> in SQL: NULL as soon as one side is NULL.\<close>

definition sql_eq :: "'a option \<Rightarrow> 'a option \<Rightarrow> bool option" where
  "sql_eq a b = (case a of None \<Rightarrow> None
                 | Some x \<Rightarrow> (case b of None \<Rightarrow> None | Some y \<Rightarrow> Some (x = y)))"

text \<open>\<open>p AND q\<close> in SQL: false wins over NULL.\<close>

definition sql_and :: "bool option \<Rightarrow> bool option \<Rightarrow> bool option" where
  "sql_and p q = (if p = Some False \<or> q = Some False then Some False
                  else if p = None \<or> q = None then None else Some True)"

text \<open>A row passes \<open>ON\<close>, \<open>WHERE\<close> and \<open>CASE WHEN\<close> only when the condition is true.\<close>

definition is_true :: "bool option \<Rightarrow> bool" where
  "is_true c = (c = Some True)"

definition coalesce :: "'a option \<Rightarrow> 'a option \<Rightarrow> 'a option" where
  "coalesce a b = (case a of None \<Rightarrow> b | Some x \<Rightarrow> Some x)"

text \<open>\<open>s LIKE '%pat%'\<close> for a pattern without wildcards of its own.\<close>

definition sql_like_contains :: "string option \<Rightarrow> string \<Rightarrow> bool option" where
  "sql_like_contains s pat = map_option (sublist pat) s"

text \<open>\<open>CAST(ts AS DATE)\<close>: the day the microsecond count falls in.\<close>

definition cast_date :: "timestamp option \<Rightarrow> date option" where
  "cast_date ts = map_option (\<lambda>t. t div 86400000000) ts"

text \<open>\<open>ROW_NUMBER() OVER ()\<close>: the rows of a result numbered from 1.\<close>

definition row_number :: "'a list \<Rightarrow> (int \<times> 'a) list" where
  "row_number xs = map (\<lambda>(n, x). (int n, x)) (enumerate 1 xs)"

text \<open>
  \<open>INSERT ... ON CONFLICT DO NOTHING\<close>: the rows are offered one after the other; a
  row that conflicts with a row already in the table (one inserted earlier by the same
  statement included) is skipped.
\<close>

fun insert_do_nothing :: "('r \<Rightarrow> 'r \<Rightarrow> bool) \<Rightarrow> 'r list \<Rightarrow> 'r list \<Rightarrow> 'r list" where
  "insert_do_nothing conf tbl [] = tbl"
| "insert_do_nothing conf tbl (c # cs) =
     insert_do_nothing conf (if \<exists>e \<in> set tbl. conf e c then tbl else tbl @ [c]) cs"

text \<open>A plain \<open>INSERT\<close>: the first conflict raises and the statement inserts nothing.\<close>

fun insert_strict :: "('r \<Rightarrow> 'r \<Rightarrow> bool) \<Rightarrow> 'r list \<Rightarrow> 'r list \<Rightarrow> error + 'r list" where
  "insert_strict conf tbl [] = Inr tbl"
| "insert_strict conf tbl (c # cs) =
     (if \<exists>e \<in> set tbl. conf e c then Inl ConstraintError
      else insert_strict conf (tbl @ [c]) cs)"

section \<open>Tables\<close>

text \<open>
  A row of the source file as \<open>read_csv_auto\<close> hands it to the first statement: one
  cell per header column, the text of the cell, NULL when the cell is blank.
\<close>

record csv_row =
  INSTRUMENT :: "string option"
  SYMBOL :: "string option"
  EXPIRY_DT :: "string option"
  STRIKE_PR :: "string option"
  OPTION_TYP :: "string option"
  OPEN :: "string option"
  HIGH :: "string option"
  LOW :: "string option"
  CLOSE :: "string option"
  SETTLE_PR :: "string option"
  CONTRACTS :: "string option"
  VAL_INLAKH :: "string option"
  OPEN_INT :: "string option"
  CHG_IN_OI :: "string option"
  TIMESTAMP :: "string option"

text \<open>
  The conversion functions of the engine, which the script only calls. What they have
  in common is how they fail: \<open>strptime text format\<close> raises on a text that does not
  follow the format, while \<open>TRY_CAST\<close> to \<open>DECIMAL(p,s)\<close> or \<open>BIGINT\<close> gives NULL
  for a text it cannot convert. Which texts they accept is the engine's business and
  stays a parameter.
\<close>

record engine =
  strptime :: "string \<Rightarrow> string \<Rightarrow> error + timestamp"
  try_cast_decimal :: "nat \<Rightarrow> nat \<Rightarrow> string \<Rightarrow> decimal option"
  try_cast_bigint :: "string \<Rightarrow> int option"

text \<open>The temporary table \<open>raw_data\<close>: the typed, nullable columns the first
  statement selects.\<close>

record raw_row =
  r_instrument :: "string option"
  r_symbol :: "string option"
  r_expiry_dt :: "date option"
  r_strike_pr :: "decimal option"
  r_option_typ :: "string option"
  r_open :: "decimal option"
  r_high :: "decimal option"
  r_low :: "decimal option"
  r_close :: "decimal option"
  r_settle_pr :: "decimal option"
  r_contracts :: "int option"
  r_val_inlakh :: "decimal option"
  r_open_int :: "int option"
  r_chg_in_oi :: "int option"
  r_timestamp :: "timestamp option"

record exchange =
  x_exchange_id :: int
  x_exchange_code :: "string option"
  x_exchange_name :: "string option"
  x_country :: "string option"
  x_is_active :: "bool option"

record instrument =
  i_instrument_id :: int
  i_exchange_id :: "int option"
  i_instrument_type :: "string option"
  i_symbol :: "string option"
  i_series :: "string option"

record expiry =
  e_expiry_id :: int
  e_instrument_id :: "int option"
  e_expiry_date :: "date option"
  e_strike_price :: "decimal option"
  e_option_type :: "string option"

record trade =
  t_trade_id :: int
  t_expiry_id :: "int option"
  t_instrument_id :: "int option"
  t_trade_date :: "date option"
  t_open :: "decimal option"
  t_high :: "decimal option"
  t_low :: "decimal option"
  t_close :: "decimal option"
  t_settle_price :: "decimal option"
  t_contracts :: "int option"
  t_value_in_lakh :: "decimal option"
  t_open_interest :: "int option"
  t_change_in_oi :: "int option"
  t_timestamp :: "timestamp option"

text \<open>
  The store: the four tables and the names of the indexes. \<open>CREATE TABLE IF NOT
  EXISTS\<close> leaves the rows as they are, so a table that does not exist yet is an
  empty one.
\<close>

record db =
  exchanges :: "exchange list"
  instruments :: "instrument list"
  expiries :: "expiry list"
  trades :: "trade list"
  indexes :: "string list"

definition empty_db :: db where
  "empty_db = \<lparr>exchanges = [], instruments = [], expiries = [], trades = [], indexes = []\<rparr>"

section \<open>Constraints\<close>

text \<open>
  Each table has a primary key and, for the three dimensions, a \<open>UNIQUE\<close>
  constraint. Two rows violate a \<open>UNIQUE\<close> constraint when every column of it is
  non-null and equal in both.
\<close>

definition exchange_conflict :: "exchange \<Rightarrow> exchange \<Rightarrow> bool" where
  "exchange_conflict e c =
     (x_exchange_id e = x_exchange_id c
      \<or> is_true (sql_eq (x_exchange_code e) (x_exchange_code c)))"

definition instrument_conflict :: "instrument \<Rightarrow> instrument \<Rightarrow> bool" where
  "instrument_conflict e c =
     (i_instrument_id e = i_instrument_id c
      \<or> is_true (sql_and (sql_eq (i_exchange_id e) (i_exchange_id c))
                 (sql_and (sql_eq (i_instrument_type e) (i_instrument_type c))
                          (sql_eq (i_symbol e) (i_symbol c)))))"

definition expiry_conflict :: "expiry \<Rightarrow> expiry \<Rightarrow> bool" where
  "expiry_conflict e c =
     (e_expiry_id e = e_expiry_id c
      \<or> is_true (sql_and (sql_eq (e_instrument_id e) (e_instrument_id c))
                 (sql_and (sql_eq (e_expiry_date e) (e_expiry_date c))
                 (sql_and (sql_eq (e_strike_price e) (e_strike_price c))
                          (sql_eq (e_option_type e) (e_option_type c))))))"

definition trade_conflict :: "trade \<Rightarrow> trade \<Rightarrow> bool" where
  "trade_conflict e c = (t_trade_id e = t_trade_id c)"

section \<open>create_duckdb_schema\<close>

definition seed_exchanges :: "exchange list" where
  "seed_exchanges =
     [\<lparr>x_exchange_id = 1, x_exchange_code = Some ''NSE'',
       x_exchange_name = Some ''National Stock Exchange of India'',
       x_country = Some ''India'', x_is_active = Some True\<rparr>,
      \<lparr>x_exchange_id = 2, x_exchange_code = Some ''BSE'',
       x_exchange_name = Some ''Bombay Stock Exchange'',
       x_country = Some ''India'', x_is_active = Some True\<rparr>,
      \<lparr>x_exchange_id = 3, x_exchange_code = Some ''MCX'',
       x_exchange_name = Some ''Multi Commodity Exchange of India'',
       x_country = Some ''India'', x_is_active = Some True\<rparr>]"

definition create_duckdb_schema :: "db \<Rightarrow> db" where
  "create_duckdb_schema d =
     d\<lparr>exchanges := insert_do_nothing exchange_conflict (exchanges d) seed_exchanges\<rparr>"

section \<open>load_data_duckdb\<close>

subsection \<open>The temporary table raw_data\<close>

text \<open>
  \<open>TRY_CAST(strptime(cell, '%d-%b-%Y') AS ...)\<close>: a NULL cell stays NULL;
  otherwise \<open>strptime\<close> is evaluated first, and when it raises nothing catches the
  exception, since \<open>TRY_CAST\<close> guards the cast of a timestamp it was given and no
  more. The cast of a timestamp to \<open>DATE\<close> or \<open>TIMESTAMP\<close> itself does not fail.
\<close>

definition strptime_cell :: "engine \<Rightarrow> string option \<Rightarrow> error + timestamp option" where
  "strptime_cell E cell =
     (case cell of
        None \<Rightarrow> Inr None
      | Some s \<Rightarrow> (case strptime E s ''%d-%b-%Y'' of
                    Inl e \<Rightarrow> Inl e
                  | Inr ts \<Rightarrow> Inr (Some ts)))"

text \<open>The \<open>SELECT\<close> list of \<open>CREATE TEMP TABLE raw_data\<close> on one source row.\<close>

definition select_row :: "engine \<Rightarrow> csv_row \<Rightarrow> error + raw_row" where
  "select_row E c =
     (case strptime_cell E (EXPIRY_DT c) of
        Inl e \<Rightarrow> Inl e
      | Inr ex \<Rightarrow>
          (case strptime_cell E (TIMESTAMP c) of
             Inl e \<Rightarrow> Inl e
           | Inr ts \<Rightarrow>
               Inr \<lparr>r_instrument = INSTRUMENT c,
                    r_symbol = SYMBOL c,
                    r_expiry_dt = cast_date ex,
                    r_strike_pr = Option.bind (STRIKE_PR c) (try_cast_decimal E 12 2),
                    r_option_typ = OPTION_TYP c,
                    r_open = Option.bind (OPEN c) (try_cast_decimal E 12 2),
                    r_high = Option.bind (HIGH c) (try_cast_decimal E 12 2),
                    r_low = Option.bind (LOW c) (try_cast_decimal E 12 2),
                    r_close = Option.bind (CLOSE c) (try_cast_decimal E 12 2),
                    r_settle_pr = Option.bind (SETTLE_PR c) (try_cast_decimal E 12 2),
                    r_contracts = Option.bind (CONTRACTS c) (try_cast_bigint E),
                    r_val_inlakh = Option.bind (VAL_INLAKH c) (try_cast_decimal E 15 2),
                    r_open_int = Option.bind (OPEN_INT c) (try_cast_bigint E),
                    r_chg_in_oi = Option.bind (CHG_IN_OI c) (try_cast_bigint E),
                    r_timestamp = ts\<rparr>))"

text \<open>The statement as a whole: one exception and no table is created.\<close>

fun create_raw_data :: "engine \<Rightarrow> csv_row list \<Rightarrow> error + raw_row list" where
  "create_raw_data E [] = Inr []"
| "create_raw_data E (c # cs) =
     (case select_row E c of
        Inl e \<Rightarrow> Inl e
      | Inr r \<Rightarrow> (case create_raw_data E cs of
                    Inl e \<Rightarrow> Inl e
                  | Inr rs \<Rightarrow> Inr (r # rs)))"

subsection \<open>Instruments\<close>

text \<open>
  \<open>SELECT DISTINCT instrument, symbol FROM raw_data\<close>. \<open>DISTINCT\<close> takes two NULLs
  for the same value, as equality on \<open>option\<close> does. The engine fixes no order for
  the result; the model keeps one copy of each pair, in the order of the last
  occurrences in the source (what \<open>remdups\<close> does).
\<close>

definition instrument_keys :: "raw_row list \<Rightarrow> (string option \<times> string option) list" where
  "instrument_keys raw = remdups (map (\<lambda>r. (r_instrument r, r_symbol r)) raw)"

definition instrument_row :: "int \<times> string option \<times> string option \<Rightarrow> instrument" where
  "instrument_row = (\<lambda>(n, ityp, smb).
     \<lparr>i_instrument_id = n, i_exchange_id = Some 1,
      i_instrument_type = ityp, i_symbol = smb,
      i_series = Some (if is_true (sql_like_contains ityp ''OPT'') then ''OPT'' else ''FUT'')\<rparr>)"

definition instrument_select :: "raw_row list \<Rightarrow> instrument list" where
  "instrument_select raw = map instrument_row (row_number (instrument_keys raw))"

definition insert_instruments :: "raw_row list \<Rightarrow> db \<Rightarrow> db" where
  "insert_instruments raw d =
     d\<lparr>instruments :=
         insert_do_nothing instrument_conflict (instruments d) (instrument_select raw)\<rparr>"

subsection \<open>Expiries\<close>

type_synonym expiry_key =
  "string option \<times> string option \<times> date option \<times> decimal option \<times> string option"

definition expiry_key_of :: "raw_row \<Rightarrow> expiry_key" where
  "expiry_key_of r =
     (r_instrument r, r_symbol r, r_expiry_dt r, r_strike_pr r, r_option_typ r)"

text \<open>The subquery \<open>r\<close>: the distinct contract tuples of the rows with an expiry date.\<close>

definition expiry_keys :: "raw_row list \<Rightarrow> expiry_key list" where
  "expiry_keys raw = remdups (map expiry_key_of (filter (\<lambda>r. r_expiry_dt r \<noteq> None) raw))"

text \<open>\<open>ON r.instrument = i.instrument_type AND r.symbol = i.symbol\<close>.\<close>

definition on_instrument :: "string option \<Rightarrow> string option \<Rightarrow> instrument \<Rightarrow> bool" where
  "on_instrument ityp smb i =
     is_true (sql_and (sql_eq ityp (i_instrument_type i)) (sql_eq smb (i_symbol i)))"

definition expiry_join :: "instrument list \<Rightarrow> expiry_key list \<Rightarrow> (expiry_key \<times> instrument) list" where
  "expiry_join itbl ks =
     concat (map (\<lambda>k. map (\<lambda>i. (k, i))
                    (filter (on_instrument (fst k) (fst (snd k))) itbl)) ks)"

definition expiry_row :: "int \<times> expiry_key \<times> instrument \<Rightarrow> expiry" where
  "expiry_row = (\<lambda>(n, (ityp, smb, dt, strike, otyp), i).
     \<lparr>e_expiry_id = n, e_instrument_id = Some (i_instrument_id i),
      e_expiry_date = dt,
      e_strike_price = coalesce strike (Some 0),
      e_option_type = coalesce otyp (Some ''XX'')\<rparr>)"

definition expiry_select :: "raw_row list \<Rightarrow> instrument list \<Rightarrow> expiry list" where
  "expiry_select raw itbl = map expiry_row (row_number (expiry_join itbl (expiry_keys raw)))"

definition insert_expiries :: "raw_row list \<Rightarrow> db \<Rightarrow> db" where
  "insert_expiries raw d =
     d\<lparr>expiries :=
         insert_do_nothing expiry_conflict (expiries d)
           (expiry_select raw (instruments d))\<rparr>"

subsection \<open>Trades\<close>

text \<open>The second \<open>ON\<close> clause of the fact query, between a source row, its instrument
  and an expiry.\<close>

definition on_expiry :: "raw_row \<Rightarrow> instrument \<Rightarrow> expiry \<Rightarrow> bool" where
  "on_expiry r i ex =
     is_true
       (sql_and (sql_eq (e_instrument_id ex) (Some (i_instrument_id i)))
       (sql_and (sql_eq (e_expiry_date ex) (r_expiry_dt r))
       (sql_and (sql_eq (coalesce (e_strike_price ex) (Some 0)) (coalesce (r_strike_pr r) (Some 0)))
                (sql_eq (coalesce (e_option_type ex) (Some ''XX''))
                        (coalesce (r_option_typ r) (Some ''XX''))))))"

text \<open>The rows one source row contributes to the two joins, before \<open>WHERE\<close>.\<close>

definition join_row :: "db \<Rightarrow> raw_row \<Rightarrow> (raw_row \<times> instrument \<times> expiry) list" where
  "join_row d r =
     concat (map (\<lambda>i. map (\<lambda>ex. (r, i, ex)) (filter (on_expiry r i) (expiries d)))
               (filter (on_instrument (r_instrument r) (r_symbol r)) (instruments d)))"

text \<open>\<open>... WHERE r.timestamp IS NOT NULL\<close>.\<close>

definition fact_rows :: "db \<Rightarrow> raw_row \<Rightarrow> (raw_row \<times> instrument \<times> expiry) list" where
  "fact_rows d r = filter (\<lambda>(r, i, ex). r_timestamp r \<noteq> None) (join_row d r)"

definition trade_row :: "int \<times> raw_row \<times> instrument \<times> expiry \<Rightarrow> trade" where
  "trade_row = (\<lambda>(n, r, i, ex).
     \<lparr>t_trade_id = n, t_expiry_id = Some (e_expiry_id ex),
      t_instrument_id = Some (i_instrument_id i),
      t_trade_date = cast_date (r_timestamp r),
      t_open = coalesce (r_open r) (Some 0),
      t_high = coalesce (r_high r) (Some 0),
      t_low = coalesce (r_low r) (Some 0),
      t_close = coalesce (r_close r) (Some 0),
      t_settle_price = coalesce (r_settle_pr r) (Some 0),
      t_contracts = coalesce (r_contracts r) (Some 0),
      t_value_in_lakh = coalesce (r_val_inlakh r) (Some 0),
      t_open_interest = coalesce (r_open_int r) (Some 0),
      t_change_in_oi = coalesce (r_chg_in_oi r) (Some 0),
      t_timestamp = r_timestamp r\<rparr>)"

definition trade_select :: "raw_row list \<Rightarrow> db \<Rightarrow> trade list" where
  "trade_select raw d = map trade_row (row_number (concat (map (fact_rows d) raw)))"

definition insert_trades :: "raw_row list \<Rightarrow> db \<Rightarrow> error + db" where
  "insert_trades raw d =
     (case insert_strict trade_conflict (trades d) (trade_select raw d) of
        Inl e \<Rightarrow> Inl e
      | Inr tbl \<Rightarrow> Inr (d\<lparr>trades := tbl\<rparr>))"

subsection \<open>Indexes and the whole load\<close>

text \<open>
  \<open>CREATE INDEX\<close> without \<open>IF NOT EXISTS\<close> raises when the name is taken. Every
  statement commits on its own, so a statement that raises leaves the store as the
  statements before it made it; the result is the exception, if any, and that store.
\<close>

fun create_indexes :: "string list \<Rightarrow> db \<Rightarrow> error option \<times> db" where
  "create_indexes [] d = (None, d)"
| "create_indexes (n # ns) d =
     (if n \<in> set (indexes d) then (Some CatalogError, d)
      else create_indexes ns (d\<lparr>indexes := indexes d @ [n]\<rparr>))"

definition load_dimensions :: "raw_row list \<Rightarrow> db \<Rightarrow> db" where
  "load_dimensions raw d = insert_expiries raw (insert_instruments raw d)"

text \<open>The statements that follow the creation of \<open>raw_data\<close>, on the table it
  holds.\<close>

definition load_from_raw_data :: "raw_row list \<Rightarrow> db \<Rightarrow> error option \<times> db" where
  "load_from_raw_data raw d =
     (let d2 = load_dimensions raw d in
      case insert_trades raw d2 of
        Inl e \<Rightarrow> (Some e, d2)
      | Inr d3 \<Rightarrow>
          create_indexes
            [''idx_trades_instrument'', ''idx_trades_date'', ''idx_trades_symbol_date''] d3)"

text \<open>The whole function: when the first statement raises, none of the others runs.\<close>

definition load_data_duckdb :: "engine \<Rightarrow> csv_row list \<Rightarrow> db \<Rightarrow> error option \<times> db" where
  "load_data_duckdb E csv d =
     (case create_raw_data E csv of
        Inl e \<Rightarrow> (Some e, d)
      | Inr raw \<Rightarrow> load_from_raw_data raw d)"

definition main :: "engine \<Rightarrow> csv_row list \<Rightarrow> db \<Rightarrow> error option \<times> db" where
  "main E csv d = load_data_duckdb E csv (create_duckdb_schema d)"

text \<open>A run of the script whose first statement succeeded and left \<open>raw\<close> in
  \<open>raw_data\<close>.\<close>

definition main_from_raw_data :: "raw_row list \<Rightarrow> db \<Rightarrow> error option \<times> db" where
  "main_from_raw_data raw d = load_from_raw_data raw (create_duckdb_schema d)"

text \<open>The store after one such run against a new database file.\<close>

definition fresh_load :: "raw_row list \<Rightarrow> db" where
  "fresh_load raw = snd (main_from_raw_data raw empty_db)"

section \<open>Notions used to state the properties\<close>

text \<open>
  A source row can reach the fact table only when the columns the two joins and the
  \<open>WHERE\<close> clause test are present.
\<close>

definition loadable :: "raw_row \<Rightarrow> bool" where
  "loadable r = (r_instrument r \<noteq> None \<and> r_symbol r \<noteq> None
                 \<and> r_expiry_dt r \<noteq> None \<and> r_timestamp r \<noteq> None)"

text \<open>The store of a first run just before the fact insert.\<close>

definition fresh_dims :: "raw_row list \<Rightarrow> db" where
  "fresh_dims raw = load_dimensions raw (create_duckdb_schema empty_db)"

text \<open>
  \<open>SUM(col)\<close> as \<^verbatim>\<open>scripts/run_all_queries.py\<close> uses it: NULLs are skipped, and
  the sum of no value at all is NULL.
\<close>

fun sql_sum :: "int option list \<Rightarrow> int option" where
  "sql_sum [] = None"
| "sql_sum (None # vs) = sql_sum vs"
| "sql_sum (Some v # vs) = Some (case sql_sum vs of None \<Rightarrow> v | Some s \<Rightarrow> v + s)"

text \<open>The nine measure columns of a fact row, and what the source row says they are.\<close>

definition trade_measures :: "trade \<Rightarrow>
    decimal option \<times> decimal option \<times> decimal option \<times> decimal option \<times> decimal option
    \<times> int option \<times> decimal option \<times> int option \<times> int option" where
  "trade_measures t =
     (t_open t, t_high t, t_low t, t_close t, t_settle_price t,
      t_contracts t, t_value_in_lakh t, t_open_interest t, t_change_in_oi t)"

definition or_zero :: "int option \<Rightarrow> int" where
  "or_zero a = (case a of None \<Rightarrow> 0 | Some v \<Rightarrow> v)"

definition defaulted_measures :: "raw_row \<Rightarrow>
    decimal option \<times> decimal option \<times> decimal option \<times> decimal option \<times> decimal option
    \<times> int option \<times> decimal option \<times> int option \<times> int option" where
  "defaulted_measures r =
     (Some (or_zero (r_open r)), Some (or_zero (r_high r)), Some (or_zero (r_low r)),
      Some (or_zero (r_close r)), Some (or_zero (r_settle_pr r)),
      Some (or_zero (r_contracts r)), Some (or_zero (r_val_inlakh r)),
      Some (or_zero (r_open_int r)), Some (or_zero (r_chg_in_oi r)))"

subsection \<open>Sample rows\<close>

text \<open>
  A futures row (no strike, no option type; expiry 29-Aug-2019, traded 01-Aug-2019)
  and an option row with two blank measures.
\<close>

definition scenario_a :: raw_row where
  "scenario_a =
     \<lparr>r_instrument = Some ''FUTIDX'', r_symbol = Some ''NIFTY'',
      r_expiry_dt = Some 18137, r_strike_pr = None, r_option_typ = None,
      r_open = Some 1100000, r_high = Some 1105000, r_low = Some 1095000,
      r_close = Some 1101000, r_settle_pr = Some 1101000, r_contracts = Some 5,
      r_val_inlakh = Some 41250, r_open_int = Some 7, r_chg_in_oi = Some 2,
      r_timestamp = Some 1564617600000000\<rparr>"

definition scenario_opt :: raw_row where
  "scenario_opt =
     \<lparr>r_instrument = Some ''OPTSTK'', r_symbol = Some ''ACC'',
      r_expiry_dt = Some 18137, r_strike_pr = Some 150000, r_option_typ = Some ''CE'',
      r_open = Some 4550, r_high = None, r_low = Some 4100,
      r_close = Some 4300, r_settle_pr = Some 4300, r_contracts = Some 12,
      r_val_inlakh = Some 7420, r_open_int = None, r_chg_in_oi = Some (- 3),
      r_timestamp = Some 1564617600000000\<rparr>"

text \<open>The option row with, in turn, its timestamp and its instrument type null.\<close>

definition no_timestamp_row :: raw_row where
  "no_timestamp_row = scenario_opt\<lparr>r_timestamp := None\<rparr>"

definition no_instrument_row :: raw_row where
  "no_instrument_row = scenario_opt\<lparr>r_instrument := None\<rparr>"

subsection \<open>A sample engine and sample source rows\<close>

text \<open>
  One engine to run examples with. Its \<open>strptime\<close> knows the format of the script
  only and reads \<open>DD-Mon-YYYY\<close> with a valid day of the month; its casts read whole
  numbers. It raises, or gives NULL, on every other text.
\<close>

definition digit_value :: "char \<Rightarrow> int option" where
  "digit_value c =
     (let n = (of_char c :: int) in if 48 \<le> n \<and> n \<le> 57 then Some (n - 48) else None)"

fun digits_value :: "int \<Rightarrow> string \<Rightarrow> int option" where
  "digits_value acc [] = Some acc"
| "digits_value acc (c # cs) =
     (case digit_value c of None \<Rightarrow> None | Some v \<Rightarrow> digits_value (10 * acc + v) cs)"

definition whole_number :: "string \<Rightarrow> int option" where
  "whole_number s =
     (case s of
        [] \<Rightarrow> None
      | c # cs \<Rightarrow>
          if c = CHR ''-''
          then (if cs = [] then None else map_option uminus (digits_value 0 cs))
          else digits_value 0 s)"

definition month_number :: "string \<Rightarrow> int option" where
  "month_number = map_of
     [(''Jan'', 1), (''Feb'', 2), (''Mar'', 3), (''Apr'', 4), (''May'', 5), (''Jun'', 6),
      (''Jul'', 7), (''Aug'', 8), (''Sep'', 9), (''Oct'', 10), (''Nov'', 11), (''Dec'', 12)]"

definition leap_year :: "int \<Rightarrow> bool" where
  "leap_year y = (y mod 4 = 0 \<and> (y mod 100 \<noteq> 0 \<or> y mod 400 = 0))"

definition days_in_month :: "int \<Rightarrow> int \<Rightarrow> int" where
  "days_in_month y m =
     (if m = 2 then (if leap_year y then 29 else 28)
      else if m = 4 \<or> m = 6 \<or> m = 9 \<or> m = 11 then 30 else 31)"

text \<open>The day number of a date, counted from 1 January 1970.\<close>

definition days_from_civil :: "int \<Rightarrow> int \<Rightarrow> int \<Rightarrow> int" where
  "days_from_civil y m d =
     (let y' = (if m \<le> 2 then y - 1 else y);
          era = y' div 400;
          yoe = y' - era * 400;
          mp = (if m > 2 then m - 3 else m + 9);
          doy = (153 * mp + 2) div 5 + d - 1;
          doe = yoe * 365 + yoe div 4 - yoe div 100 + doy
      in era * 146097 + doe - 719468)"

definition sample_strptime :: "string \<Rightarrow> string \<Rightarrow> error + timestamp" where
  "sample_strptime s fmt =
     (if fmt = ''%d-%b-%Y'' \<and> length s = 11 \<and> s ! 2 = CHR ''-'' \<and> s ! 6 = CHR ''-'' then
        (case (digits_value 0 (take 2 s), month_number (take 3 (drop 3 s)),
               digits_value 0 (drop 7 s)) of
           (Some d, Some m, Some y) \<Rightarrow>
             if 1 \<le> d \<and> d \<le> days_in_month y m
             then Inr (days_from_civil y m d * 86400000000)
             else Inl InvalidInputError
         | _ \<Rightarrow> Inl InvalidInputError)
      else Inl InvalidInputError)"

definition sample_engine :: engine where
  "sample_engine =
     \<lparr>strptime = sample_strptime,
      try_cast_decimal = (\<lambda>p s t. map_option (\<lambda>n. 100 * n) (whole_number t)),
      try_cast_bigint = whole_number\<rparr>"

text \<open>
  A futures row of the source file (blank strike and option type), the same contract
  traded the next day, and the second row with an expiry date that is no date.
\<close>

definition csv_scenario_a :: csv_row where
  "csv_scenario_a =
     \<lparr>INSTRUMENT = Some ''FUTIDX'', SYMBOL = Some ''NIFTY'',
      EXPIRY_DT = Some ''29-Aug-2019'', STRIKE_PR = None, OPTION_TYP = None,
      OPEN = Some ''11000'', HIGH = Some ''11050'', LOW = Some ''10950'',
      CLOSE = Some ''11010'', SETTLE_PR = Some ''11010'', CONTRACTS = Some ''5'',
      VAL_INLAKH = Some ''412'', OPEN_INT = Some ''7'', CHG_IN_OI = Some ''2'',
      TIMESTAMP = Some ''01-Aug-2019''\<rparr>"

definition csv_next_day :: csv_row where
  "csv_next_day = csv_scenario_a\<lparr>OPEN_INT := Some ''9'', TIMESTAMP := Some ''02-Aug-2019''\<rparr>"

definition csv_bad_expiry :: csv_row where
  "csv_bad_expiry = csv_next_day\<lparr>EXPIRY_DT := Some ''32-Foo-2019''\<rparr>"

section \<open>SQL conditions and inserts\<close>

lemma sql_eq_true [simp]: "is_true (sql_eq a b) \<longleftrightarrow> (\<exists>x. a = Some x \<and> b = Some x)"
  by (auto simp: is_true_def sql_eq_def split: option.splits)

lemma sql_and_true [simp]: "is_true (sql_and p q) \<longleftrightarrow> is_true p \<and> is_true q"
  by (cases p; cases q) (auto simp: is_true_def sql_and_def)

lemma coalesce_simps [simp]:
  "coalesce None b = b" "coalesce (Some x) b = Some x"
  by (simp_all add: coalesce_def)

lemma coalesce_Some_default: "coalesce a (Some v) = Some (case a of None \<Rightarrow> v | Some x \<Rightarrow> x)"
  by (cases a) simp_all

lemma idn_append:
  "(\<forall>e\<in>set tbl. \<forall>c\<in>set cs. \<not> conf e c) \<Longrightarrow> sorted_wrt (\<lambda>a b. \<not> conf a b) cs
   \<Longrightarrow> insert_do_nothing conf tbl cs = tbl @ cs"
proof (induction cs arbitrary: tbl)
  case Nil
  then show ?case by simp
next
  case (Cons c cs)
  have "insert_do_nothing conf (tbl @ [c]) cs = (tbl @ [c]) @ cs"
    using Cons.prems by (intro Cons.IH) auto
  with Cons.prems show ?case by simp
qed

lemma idn_subset: "set (insert_do_nothing conf tbl cs) \<subseteq> set tbl \<union> set cs"
proof (induction cs arbitrary: tbl)
  case Nil
  then show ?case by simp
next
  case (Cons c cs)
  let ?t = "if \<exists>e\<in>set tbl. conf e c then tbl else tbl @ [c]"
  have "set (insert_do_nothing conf ?t cs) \<subseteq> set ?t \<union> set cs" by (rule Cons.IH)
  also have "\<dots> \<subseteq> set tbl \<union> set (c # cs)" by auto
  finally show ?case by simp
qed

lemma idn_keeps: "set tbl \<subseteq> set (insert_do_nothing conf tbl cs)"
proof (induction cs arbitrary: tbl)
  case Nil
  then show ?case by simp
next
  case (Cons c cs)
  have "set tbl \<subseteq> set (if \<exists>e\<in>set tbl. conf e c then tbl else tbl @ [c])" by auto
  also have "\<dots> \<subseteq> set (insert_do_nothing conf (if \<exists>e\<in>set tbl. conf e c then tbl else tbl @ [c]) cs)"
    by (rule Cons.IH)
  finally show ?case by simp
qed

lemma idn_covers:
  "c \<in> set cs \<Longrightarrow> conf c c \<Longrightarrow> \<exists>e\<in>set (insert_do_nothing conf tbl cs). conf e c"
proof (induction cs arbitrary: tbl)
  case Nil
  then show ?case by simp
next
  case (Cons a cs)
  let ?t = "if \<exists>e\<in>set tbl. conf e a then tbl else tbl @ [a]"
  show ?case
  proof (cases "c = a")
    case True
    then have "\<exists>e\<in>set ?t. conf e c" using Cons.prems(2) by auto
    then obtain e where e: "e \<in> set ?t" "conf e c" by blast
    have "set ?t \<subseteq> set (insert_do_nothing conf ?t cs)" by (rule idn_keeps)
    with e have "\<exists>e\<in>set (insert_do_nothing conf ?t cs). conf e c" by blast
    then show ?thesis by simp
  next
    case False
    with Cons.prems have "c \<in> set cs" by simp
    from Cons.IH[OF this Cons.prems(2), of ?t] show ?thesis by simp
  qed
qed

lemma idn_noop:
  "(\<forall>c\<in>set cs. \<exists>e\<in>set tbl. conf e c) \<Longrightarrow> insert_do_nothing conf tbl cs = tbl"
  by (induction cs arbitrary: tbl) auto

lemma idn_idem:
  assumes "\<forall>c\<in>set cs. conf c c"
  shows "insert_do_nothing conf (insert_do_nothing conf tbl cs) cs = insert_do_nothing conf tbl cs"
  by (rule idn_noop) (use assms idn_covers in fast)

lemma idn_distinct:
  "distinct tbl \<Longrightarrow> (\<forall>c\<in>set cs. conf c c) \<Longrightarrow> distinct (insert_do_nothing conf tbl cs)"
proof (induction cs arbitrary: tbl)
  case Nil
  then show ?case by simp
next
  case (Cons c cs)
  have "distinct (if \<exists>e\<in>set tbl. conf e c then tbl else tbl @ [c])"
    using Cons.prems by auto
  then show ?case using Cons.IH Cons.prems(2) by simp
qed

lemma idn_unique:
  assumes sym: "\<And>a b. conf a b \<Longrightarrow> conf b a"
  shows "(\<forall>e\<in>set tbl. \<forall>e'\<in>set tbl. conf e e' \<longrightarrow> e = e')
    \<Longrightarrow> (\<forall>e\<in>set (insert_do_nothing conf tbl cs). \<forall>e'\<in>set (insert_do_nothing conf tbl cs). conf e e' \<longrightarrow> e = e')"
proof (induction cs arbitrary: tbl)
  case Nil
  then show ?case by simp
next
  case (Cons c cs)
  let ?t = "if \<exists>e\<in>set tbl. conf e c then tbl else tbl @ [c]"
  have "\<forall>e\<in>set ?t. \<forall>e'\<in>set ?t. conf e e' \<longrightarrow> e = e'"
    using Cons.prems sym by auto
  from Cons.IH[OF this] show ?case by simp
qed

lemma strict_append:
  "(\<forall>e\<in>set tbl. \<forall>c\<in>set cs. \<not> conf e c) \<Longrightarrow> sorted_wrt (\<lambda>a b. \<not> conf a b) cs
   \<Longrightarrow> insert_strict conf tbl cs = Inr (tbl @ cs)"
proof (induction cs arbitrary: tbl)
  case Nil
  then show ?case by simp
next
  case (Cons c cs)
  have "insert_strict conf (tbl @ [c]) cs = Inr ((tbl @ [c]) @ cs)"
    using Cons.prems by (intro Cons.IH) auto
  with Cons.prems show ?case by simp
qed

lemma map_snd_row_number [simp]: "map snd (row_number xs) = xs"
  by (simp add: row_number_def comp_def case_prod_unfold)

lemma length_row_number [simp]: "length (row_number xs) = length xs"
  by (simp add: row_number_def)

lemma distinct_fst_row_number: "distinct (map fst (row_number xs))"
  by (auto simp: row_number_def distinct_map inj_on_def in_set_enumerate_eq prod_eq_iff
        case_prod_unfold comp_def)

lemma sorted_wrt_fst_distinct:
  "distinct (map fst ps) \<Longrightarrow> sorted_wrt (\<lambda>a b. fst a \<noteq> fst b) ps"
  by (induction ps) auto

lemma filter_singleton:
  assumes "distinct xs" "e \<in> set xs" "P e" "\<forall>x\<in>set xs. P x \<longrightarrow> x = e"
  shows "filter P xs = [e]"
proof -
  from assms(2) obtain ys zs where xs: "xs = ys @ e # zs"
    by (auto simp: in_set_conv_decomp)
  with assms(1) have notin: "e \<notin> set ys" "e \<notin> set zs" by auto
  have "\<forall>x\<in>set ys. \<not> P x" using assms(4) notin(1) xs by fastforce
  then have ys: "filter P ys = []" by (simp add: filter_empty_conv)
  have "\<forall>x\<in>set zs. \<not> P x" using assms(4) notin(2) xs by fastforce
  then have zs: "filter P zs = []" by (simp add: filter_empty_conv)
  show ?thesis by (simp add: xs ys zs assms(3))
qed

lemma length_concat_indicator:
  "(\<forall>r\<in>set xs. length (f r) = (if P r then 1 else 0))
   \<Longrightarrow> length (concat (map f xs)) = length (filter P xs)"
  by (induction xs) auto

section \<open>The dimensions of a first load\<close>

lemma sorted_wrt_distinct_pairs:
  "distinct (map fst ps) \<Longrightarrow> distinct (map snd ps)
   \<Longrightarrow> sorted_wrt (\<lambda>a b. fst a \<noteq> fst b \<and> snd a \<noteq> snd b) ps"
  by (induction ps) force+

lemma instrument_row_sel [simp]:
  "i_instrument_id (instrument_row p) = fst p"
  "i_exchange_id (instrument_row p) = Some 1"
  "i_instrument_type (instrument_row p) = fst (snd p)"
  "i_symbol (instrument_row p) = snd (snd p)"
  "i_series (instrument_row p) =
     Some (if is_true (sql_like_contains (fst (snd p)) ''OPT'') then ''OPT'' else ''FUT'')"
  by (simp_all add: instrument_row_def case_prod_unfold)

lemma expiry_row_sel [simp]:
  "e_expiry_id (expiry_row p) = fst p"
  "e_instrument_id (expiry_row p) = Some (i_instrument_id (snd (snd p)))"
  "e_expiry_date (expiry_row p) = fst (snd (snd (fst (snd p))))"
  "e_strike_price (expiry_row p) = coalesce (fst (snd (snd (snd (fst (snd p)))))) (Some 0)"
  "e_option_type (expiry_row p) = coalesce (snd (snd (snd (snd (fst (snd p)))))) (Some ''XX'')"
  by (simp_all add: expiry_row_def case_prod_unfold)

lemma distinct_instrument_keys [simp]: "distinct (instrument_keys raw)"
  by (simp add: instrument_keys_def)

lemma distinct_expiry_keys [simp]: "distinct (expiry_keys raw)"
  by (simp add: expiry_keys_def)

lemma row_number_snd_image: "set xs = snd ` set (row_number xs)"
  by (metis map_snd_row_number set_map)

lemma instrument_ids_distinct: "distinct (map i_instrument_id (instrument_select raw))"
proof -
  have "map i_instrument_id (instrument_select raw) = map fst (row_number (instrument_keys raw))"
    by (simp add: instrument_select_def comp_def)
  then show ?thesis by (simp add: distinct_fst_row_number)
qed

lemma instrument_select_nonconf:
  "sorted_wrt (\<lambda>a b. \<not> instrument_conflict a b) (instrument_select raw)"
proof -
  have "sorted_wrt (\<lambda>a b. fst a \<noteq> fst b \<and> snd a \<noteq> snd b) (row_number (instrument_keys raw))"
    by (rule sorted_wrt_distinct_pairs) (simp_all add: distinct_fst_row_number)
  then have "sorted_wrt (\<lambda>a b. \<not> instrument_conflict (instrument_row a) (instrument_row b))
               (row_number (instrument_keys raw))"
    by (rule sorted_wrt_mono_rel[rotated]) (auto simp: instrument_conflict_def prod_eq_iff)
  then show ?thesis by (simp add: instrument_select_def sorted_wrt_map)
qed

lemma instruments_from_empty:
  "insert_do_nothing instrument_conflict [] (instrument_select raw) = instrument_select raw"
  using idn_append[of "[]" "instrument_select raw" instrument_conflict]
  by (simp add: instrument_select_nonconf)

lemma on_instrument_iff [simp]:
  "on_instrument a b i \<longleftrightarrow> (\<exists>x y. a = Some x \<and> b = Some y
      \<and> i_instrument_type i = Some x \<and> i_symbol i = Some y)"
  by (auto simp: on_instrument_def)

lemma instrument_match:
  assumes "r \<in> set raw" "r_instrument r = Some a" "r_symbol r = Some b"
  shows "\<exists>n. filter (on_instrument (Some a) (Some b)) (instrument_select raw)
              = [instrument_row (n, Some a, Some b)]"
proof -
  let ?ps = "row_number (instrument_keys raw)"
  have "(Some a, Some b) \<in> set (instrument_keys raw)"
    using assms by (force simp: instrument_keys_def)
  then have "(Some a, Some b) \<in> snd ` set ?ps" by (simp only: row_number_snd_image[symmetric])
  then obtain p where p: "p \<in> set ?ps" "snd p = (Some a, Some b)" by (auto simp: image_iff)
  from p(2) have "p = (fst p, Some a, Some b)" by (simp add: prod_eq_iff)
  with p(1) obtain n where n: "(n, Some a, Some b) \<in> set ?ps" by metis
  have "distinct (map snd ?ps)" by simp
  then have inj: "inj_on snd (set ?ps)" by (simp only: distinct_map)
  have "filter (on_instrument (Some a) (Some b)) (instrument_select raw)
          = [instrument_row (n, Some a, Some b)]"
  proof (rule filter_singleton)
    show "distinct (instrument_select raw)"
      using instrument_ids_distinct[of raw] by (simp only: distinct_map)
    show "instrument_row (n, Some a, Some b) \<in> set (instrument_select raw)"
      using n by (auto simp: instrument_select_def)
    show "on_instrument (Some a) (Some b) (instrument_row (n, Some a, Some b))" by simp
    show "\<forall>x\<in>set (instrument_select raw).
            on_instrument (Some a) (Some b) x \<longrightarrow> x = instrument_row (n, Some a, Some b)"
    proof (intro ballI impI)
      fix x assume x: "x \<in> set (instrument_select raw)" and m: "on_instrument (Some a) (Some b) x"
      from x obtain p where p: "p \<in> set ?ps" "x = instrument_row p"
        by (auto simp: instrument_select_def)
      with m have "snd p = (Some a, Some b)" by (simp add: prod_eq_iff)
      then have eq: "snd p = snd (n, Some a, Some b)" by simp
      from inj eq p(1) n have "p = (n, Some a, Some b)" by (rule inj_onD)
      with p show "x = instrument_row (n, Some a, Some b)" by simp
    qed
  qed
  then show ?thesis ..
qed

lemma coalesce_idem [simp]: "coalesce (coalesce a (Some v)) (Some w) = coalesce a (Some v)"
  by (cases a) simp_all

lemma coalesce_eq_true [simp]:
  "is_true (sql_eq (coalesce a (Some v)) (coalesce b (Some v)))
     \<longleftrightarrow> coalesce a (Some v) = coalesce b (Some v)"
  by (cases a; cases b) auto

lemma schema_empty: "create_duckdb_schema empty_db = empty_db\<lparr>exchanges := seed_exchanges\<rparr>"
  by (simp add: create_duckdb_schema_def empty_db_def seed_exchanges_def exchange_conflict_def)

lemma empty_db_sel [simp]:
  "exchanges empty_db = []" "instruments empty_db = []" "expiries empty_db = []"
  "trades empty_db = []" "indexes empty_db = []"
  by (simp_all add: empty_db_def)

lemma fresh_dims_tables:
  "exchanges (fresh_dims raw) = seed_exchanges"
  "instruments (fresh_dims raw) = instrument_select raw"
  "expiries (fresh_dims raw) =
     insert_do_nothing expiry_conflict [] (expiry_select raw (instrument_select raw))"
  "trades (fresh_dims raw) = []"
  "indexes (fresh_dims raw) = []"
  by (simp_all add: fresh_dims_def load_dimensions_def insert_expiries_def insert_instruments_def
        schema_empty instruments_from_empty)

lemma expiry_conflict_refl: "expiry_conflict c c"
  by (simp add: expiry_conflict_def)

lemma expiry_conflict_sym: "expiry_conflict a b \<Longrightarrow> expiry_conflict b a"
  by (auto simp: expiry_conflict_def)

lemma expiry_ids_distinct: "distinct (map e_expiry_id (expiry_select raw itbl))"
proof -
  have "map e_expiry_id (expiry_select raw itbl)
          = map fst (row_number (expiry_join itbl (expiry_keys raw)))"
    by (simp add: expiry_select_def comp_def)
  then show ?thesis by (simp add: distinct_fst_row_number)
qed

lemma expiry_select_cols:
  "x \<in> set (expiry_select raw itbl)
   \<Longrightarrow> e_instrument_id x \<noteq> None \<and> e_strike_price x \<noteq> None \<and> e_option_type x \<noteq> None"
  by (auto simp: expiry_select_def coalesce_Some_default)

lemma on_expiry_iff:
  "on_expiry r i ex \<longleftrightarrow>
     e_instrument_id ex = Some (i_instrument_id i)
     \<and> e_expiry_date ex \<noteq> None \<and> e_expiry_date ex = r_expiry_dt r
     \<and> coalesce (e_strike_price ex) (Some 0) = coalesce (r_strike_pr r) (Some 0)
     \<and> coalesce (e_option_type ex) (Some ''XX'') = coalesce (r_option_typ r) (Some ''XX'')"
  by (cases "e_strike_price ex"; cases "r_strike_pr r";
      cases "e_option_type ex"; cases "r_option_typ r")
     (auto simp: on_expiry_def)

lemma expiry_match:
  assumes r: "r \<in> set raw" and d: "r_expiry_dt r = Some d"
    and i: "i \<in> set itbl" "on_instrument (r_instrument r) (r_symbol r) i"
  shows "\<exists>e. filter (on_expiry r i)
               (insert_do_nothing expiry_conflict [] (expiry_select raw itbl)) = [e]
             \<and> e_instrument_id e = Some (i_instrument_id i)
             \<and> e_expiry_date e = Some d
             \<and> e_strike_price e = coalesce (r_strike_pr r) (Some 0)
             \<and> e_option_type e = coalesce (r_option_typ r) (Some ''XX'')"
proof -
  let ?cands = "expiry_select raw itbl"
  let ?E = "insert_do_nothing expiry_conflict [] ?cands"
  let ?js = "expiry_join itbl (expiry_keys raw)"
  let ?k = "expiry_key_of r"
  define good where "good e \<longleftrightarrow> e_instrument_id e = Some (i_instrument_id i)
             \<and> e_expiry_date e = Some d
             \<and> e_strike_price e = coalesce (r_strike_pr r) (Some 0)
             \<and> e_option_type e = coalesce (r_option_typ r) (Some ''XX'')" for e :: expiry
  have "?k \<in> set (expiry_keys raw)"
    using r d by (auto simp: expiry_keys_def)
  moreover have "i \<in> set (filter (on_instrument (fst ?k) (fst (snd ?k))) itbl)"
    using i by (simp add: expiry_key_of_def)
  ultimately have "(?k, i) \<in> set ?js"
    unfolding expiry_join_def by (auto intro!: bexI[of _ ?k])
  then have "(?k, i) \<in> snd ` set (row_number ?js)"
    by (simp only: row_number_snd_image[symmetric])
  then obtain p where p: "p \<in> set (row_number ?js)" "snd p = (?k, i)"
    by (auto simp: image_iff)
  define c where "c = expiry_row p"
  have c_in: "c \<in> set ?cands" using p(1) by (simp add: c_def expiry_select_def)
  have c_good: "good c"
    using p(2) d by (simp add: good_def c_def expiry_key_of_def)
  have sub: "set ?E \<subseteq> set ?cands" using idn_subset[of expiry_conflict "[]" ?cands] by simp
  have "\<exists>e\<in>set ?E. expiry_conflict e c"
    using c_in by (rule idn_covers) (rule expiry_conflict_refl)
  then obtain e where e: "e \<in> set ?E" "expiry_conflict e c" by blast
  have inj: "inj_on e_expiry_id (set ?cands)"
    using expiry_ids_distinct[of raw itbl] by (simp only: distinct_map)
  have e_good: "good e"
  proof (cases "e_expiry_id e = e_expiry_id c")
    case True
    from inj True have "e = c"
      by (rule inj_onD) (use e(1) sub c_in in auto)
    with c_good show ?thesis by simp
  next
    case False
    with e(2) c_good show ?thesis
      by (auto simp: expiry_conflict_def good_def)
  qed
  have uniq: "\<forall>e\<in>set ?E. \<forall>e'\<in>set ?E. expiry_conflict e e' \<longrightarrow> e = e'"
    by (rule idn_unique) (auto intro: expiry_conflict_sym)
  have dist: "distinct ?E"
    by (rule idn_distinct) (auto intro: expiry_conflict_refl)
  have "filter (on_expiry r i) ?E = [e]"
  proof (rule filter_singleton[OF dist e(1)])
    show "on_expiry r i e"
      using e_good d by (simp add: on_expiry_iff good_def)
    show "\<forall>x\<in>set ?E. on_expiry r i x \<longrightarrow> x = e"
    proof (intro ballI impI)
      fix x assume x: "x \<in> set ?E" and m: "on_expiry r i x"
      from x sub have "x \<in> set ?cands" by blast
      from expiry_select_cols[OF this] obtain s t
        where st: "e_strike_price x = Some s" "e_option_type x = Some t" by auto
      have "good x" using m st d by (simp add: on_expiry_iff good_def)
      with e_good have "expiry_conflict e x"
        by (cases "r_strike_pr r"; cases "r_option_typ r")
           (simp_all add: expiry_conflict_def good_def)
      with uniq e(1) x show "x = e" by blast
    qed
  qed
  with e_good show ?thesis unfolding good_def by blast
qed

section \<open>The fact table of a first load\<close>

lemma fact_rows_members:
  "(r', i, e) \<in> set (fact_rows d r)
   \<Longrightarrow> r' = r \<and> i \<in> set (instruments d) \<and> e \<in> set (expiries d)
       \<and> on_instrument (r_instrument r) (r_symbol r) i \<and> on_expiry r i e
       \<and> r_timestamp r \<noteq> None"
  by (auto simp: fact_rows_def join_row_def)

lemma fact_rows_not_loadable: "\<not> loadable r \<Longrightarrow> fact_rows d r = []"
proof (cases "fact_rows d r")
  case Nil
  then show ?thesis .
next
  case (Cons p ps)
  assume n: "\<not> loadable r"
  from Cons have "(fst p, fst (snd p), snd (snd p)) \<in> set (fact_rows d r)" by simp
  from fact_rows_members[OF this] have "loadable r"
    by (auto simp: loadable_def on_expiry_iff)
  with n show ?thesis by simp
qed

lemma fact_rows_single:
  assumes i: "filter (on_instrument (r_instrument r) (r_symbol r)) (instruments d) = [i]"
    and e: "filter (on_expiry r i) (expiries d) = [e]"
    and t: "r_timestamp r \<noteq> None"
  shows "fact_rows d r = [(r, i, e)]"
  by (simp add: fact_rows_def join_row_def i e t)

lemma dims_match_fresh:
  assumes r: "r \<in> set raw"
    and k: "r_instrument r \<noteq> None" "r_symbol r \<noteq> None" "r_expiry_dt r \<noteq> None"
  shows "\<exists>i e. filter (on_instrument (r_instrument r) (r_symbol r)) (instruments (fresh_dims raw)) = [i]
           \<and> filter (on_expiry r i) (expiries (fresh_dims raw)) = [e]
           \<and> i_instrument_type i = r_instrument r \<and> i_symbol i = r_symbol r
           \<and> e_instrument_id e = Some (i_instrument_id i)
           \<and> e_expiry_date e = r_expiry_dt r
           \<and> e_strike_price e = coalesce (r_strike_pr r) (Some 0)
           \<and> e_option_type e = coalesce (r_option_typ r) (Some ''XX'')"
proof -
  from k obtain a b dt where ab: "r_instrument r = Some a" "r_symbol r = Some b"
    and dt: "r_expiry_dt r = Some dt"
    by auto
  from instrument_match[OF r ab] obtain n where
    n: "filter (on_instrument (Some a) (Some b)) (instrument_select raw)
          = [instrument_row (n, Some a, Some b)]" ..
  define i where "i = instrument_row (n, Some a, Some b)"
  have fi: "filter (on_instrument (r_instrument r) (r_symbol r)) (instruments (fresh_dims raw)) = [i]"
    using n by (simp add: fresh_dims_tables ab i_def)
  then have "i \<in> set (filter (on_instrument (r_instrument r) (r_symbol r)) (instrument_select raw))"
    by (simp add: fresh_dims_tables)
  then have i_in: "i \<in> set (instrument_select raw)"
    and i_on: "on_instrument (r_instrument r) (r_symbol r) i" by simp_all
  from expiry_match[OF r dt i_in i_on] obtain e where
    e: "filter (on_expiry r i) (expiries (fresh_dims raw)) = [e]"
       "e_instrument_id e = Some (i_instrument_id i)"
       "e_expiry_date e = Some dt"
       "e_strike_price e = coalesce (r_strike_pr r) (Some 0)"
       "e_option_type e = coalesce (r_option_typ r) (Some ''XX'')"
    by (auto simp: fresh_dims_tables)
  have "i_instrument_type i = r_instrument r" "i_symbol i = r_symbol r"
    by (simp_all add: i_def ab)
  then show ?thesis using fi e dt by auto
qed

lemma fact_rows_fresh:
  assumes r: "r \<in> set raw" and l: "loadable r"
  shows "\<exists>i e. fact_rows (fresh_dims raw) r = [(r, i, e)]
           \<and> filter (on_instrument (r_instrument r) (r_symbol r)) (instruments (fresh_dims raw)) = [i]
           \<and> filter (on_expiry r i) (expiries (fresh_dims raw)) = [e]"
proof -
  from l have k: "r_instrument r \<noteq> None" "r_symbol r \<noteq> None" "r_expiry_dt r \<noteq> None"
    and ts: "r_timestamp r \<noteq> None"
    by (simp_all add: loadable_def)
  from dims_match_fresh[OF r k] obtain i e where ie:
    "filter (on_instrument (r_instrument r) (r_symbol r)) (instruments (fresh_dims raw)) = [i]"
    "filter (on_expiry r i) (expiries (fresh_dims raw)) = [e]"
    by blast
  from ie ts have "fact_rows (fresh_dims raw) r = [(r, i, e)]" by (rule fact_rows_single)
  with ie show ?thesis by blast
qed

lemma fact_rows_fresh_length:
  "r \<in> set raw \<Longrightarrow> length (fact_rows (fresh_dims raw) r) = (if loadable r then 1 else 0)"
  using fact_rows_fresh[of r raw] fact_rows_not_loadable[of r "fresh_dims raw"] by auto

lemma map_fst_concat_single:
  "(\<forall>r\<in>set xs. (P r \<longrightarrow> (\<exists>y. f r = [(r, y)])) \<and> (\<not> P r \<longrightarrow> f r = []))
   \<Longrightarrow> map fst (concat (map f xs)) = filter P xs"
  by (induction xs) auto

lemma fresh_fact_sources:
  "set xs \<subseteq> set raw
   \<Longrightarrow> map fst (concat (map (fact_rows (fresh_dims raw)) xs)) = filter loadable xs"
proof (rule map_fst_concat_single, intro ballI conjI impI)
  fix r assume "set xs \<subseteq> set raw" "r \<in> set xs" "loadable r"
  then have "r \<in> set raw" by blast
  from fact_rows_fresh[OF this \<open>loadable r\<close>]
  show "\<exists>y. fact_rows (fresh_dims raw) r = [(r, y)]" by blast
next
  fix r assume "\<not> loadable r"
  then show "fact_rows (fresh_dims raw) r = []" by (rule fact_rows_not_loadable)
qed

lemma fresh_fact_count:
  "set xs \<subseteq> set raw
   \<Longrightarrow> length (concat (map (fact_rows (fresh_dims raw)) xs)) = length (filter loadable xs)"
  using fresh_fact_sources[of xs raw] by (metis length_map)

lemma trade_row_sel [simp]:
  "t_trade_id (trade_row p) = fst p"
  "t_expiry_id (trade_row p) = Some (e_expiry_id (snd (snd (snd p))))"
  "t_instrument_id (trade_row p) = Some (i_instrument_id (fst (snd (snd p))))"
  "t_trade_date (trade_row p) = cast_date (r_timestamp (fst (snd p)))"
  "t_open (trade_row p) = coalesce (r_open (fst (snd p))) (Some 0)"
  "t_high (trade_row p) = coalesce (r_high (fst (snd p))) (Some 0)"
  "t_low (trade_row p) = coalesce (r_low (fst (snd p))) (Some 0)"
  "t_close (trade_row p) = coalesce (r_close (fst (snd p))) (Some 0)"
  "t_settle_price (trade_row p) = coalesce (r_settle_pr (fst (snd p))) (Some 0)"
  "t_contracts (trade_row p) = coalesce (r_contracts (fst (snd p))) (Some 0)"
  "t_value_in_lakh (trade_row p) = coalesce (r_val_inlakh (fst (snd p))) (Some 0)"
  "t_open_interest (trade_row p) = coalesce (r_open_int (fst (snd p))) (Some 0)"
  "t_change_in_oi (trade_row p) = coalesce (r_chg_in_oi (fst (snd p))) (Some 0)"
  "t_timestamp (trade_row p) = r_timestamp (fst (snd p))"
  by (simp_all add: trade_row_def case_prod_unfold)

lemma trade_select_nonconf: "sorted_wrt (\<lambda>a b. \<not> trade_conflict a b) (trade_select raw d)"
proof -
  let ?ps = "row_number (concat (map (fact_rows d) raw))"
  have "sorted_wrt (\<lambda>a b. fst a \<noteq> fst b) ?ps"
    by (rule sorted_wrt_fst_distinct) (rule distinct_fst_row_number)
  then show ?thesis
    by (simp add: trade_select_def sorted_wrt_map trade_conflict_def)
qed

lemma insert_trades_empty:
  "trades d = [] \<Longrightarrow> insert_trades raw d = Inr (d\<lparr>trades := trade_select raw d\<rparr>)"
  using strict_append[of "[]" "trade_select raw d" trade_conflict]
  by (simp add: insert_trades_def trade_select_nonconf)

lemma main_fresh:
  "main_from_raw_data raw empty_db =
     (None, (fresh_dims raw)\<lparr>trades := trade_select raw (fresh_dims raw),
        indexes := [''idx_trades_instrument'', ''idx_trades_date'', ''idx_trades_symbol_date'']\<rparr>)"
  by (simp add: main_from_raw_data_def load_from_raw_data_def Let_def insert_trades_empty fresh_dims_tables
        flip: fresh_dims_def)

lemma fresh_load_tables:
  "exchanges (fresh_load raw) = seed_exchanges"
  "instruments (fresh_load raw) = instrument_select raw"
  "expiries (fresh_load raw) = expiries (fresh_dims raw)"
  "trades (fresh_load raw) = trade_select raw (fresh_dims raw)"
  by (simp_all add: fresh_load_def main_fresh fresh_dims_tables)

lemma fresh_trade_count: "length (trades (fresh_load raw)) = length (filter loadable raw)"
  by (simp add: fresh_load_tables trade_select_def fresh_fact_count)

lemma row_number_nth: "n < length xs \<Longrightarrow> row_number xs ! n = (int (Suc n), xs ! n)"
  by (simp add: row_number_def nth_enumerate_eq)

lemma trade_at:
  fixes xs ys :: "raw_row list"
  assumes l: "loadable r"
  defines "p \<equiv> length (filter loadable xs)"
  shows "\<exists>i e. filter (on_instrument (r_instrument r) (r_symbol r))
                 (instruments (fresh_load (xs @ r # ys))) = [i]
           \<and> filter (on_expiry r i) (expiries (fresh_load (xs @ r # ys))) = [e]
           \<and> p < length (trades (fresh_load (xs @ r # ys)))
           \<and> trades (fresh_load (xs @ r # ys)) ! p = trade_row (int (Suc p), r, i, e)"
proof -
  let ?raw = "xs @ r # ys"
  let ?F = "fact_rows (fresh_dims ?raw)"
  let ?js = "concat (map ?F ?raw)"
  have "r \<in> set ?raw" by simp
  from fact_rows_fresh[OF this l] obtain i e where ie:
    "?F r = [(r, i, e)]"
    "filter (on_instrument (r_instrument r) (r_symbol r)) (instruments (fresh_dims ?raw)) = [i]"
    "filter (on_expiry r i) (expiries (fresh_dims ?raw)) = [e]"
    by blast
  have len: "length (concat (map ?F xs)) = p"
    unfolding p_def by (rule fresh_fact_count) auto
  have js: "?js = concat (map ?F xs) @ (r, i, e) # concat (map ?F ys)"
    by (simp add: ie(1))
  have nth: "?js ! p = (r, i, e)"
    unfolding js using len by (metis nth_append_length)
  have lt: "p < length ?js"
    unfolding js using len by simp
  have "trades (fresh_load ?raw) ! p = trade_row (row_number ?js ! p)"
    using lt by (simp add: fresh_load_tables trade_select_def)
  also have "\<dots> = trade_row (int (Suc p), r, i, e)"
    using lt nth by (simp add: row_number_nth)
  finally have "trades (fresh_load ?raw) ! p = trade_row (int (Suc p), r, i, e)" .
  moreover have "p < length (trades (fresh_load ?raw))"
    using lt by (simp add: fresh_load_tables trade_select_def)
  ultimately show ?thesis
    using ie(2,3) by (auto simp: fresh_load_tables fresh_dims_tables)
qed

lemma coalesce_or_zero: "coalesce a (Some 0) = Some (or_zero a)"
  by (cases a) (simp_all add: or_zero_def)

lemma create_indexes_tables:
  "instruments (snd (create_indexes ns d)) = instruments d"
  "expiries (snd (create_indexes ns d)) = expiries d"
  by (induction ns arbitrary: d) simp_all

lemma main_dimensions:
  "instruments (snd (main_from_raw_data raw d))
     = instruments (load_dimensions raw (create_duckdb_schema d))"
  "expiries (snd (main_from_raw_data raw d))
     = expiries (load_dimensions raw (create_duckdb_schema d))"
  by (auto simp: main_from_raw_data_def load_from_raw_data_def Let_def insert_trades_def
        create_indexes_tables
        split: sum.splits)

lemma load_dimensions_tables:
  "instruments (load_dimensions raw (create_duckdb_schema d))
     = insert_do_nothing instrument_conflict (instruments d) (instrument_select raw)"
  "expiries (load_dimensions raw (create_duckdb_schema d))
     = insert_do_nothing expiry_conflict (expiries d)
         (expiry_select raw
            (insert_do_nothing instrument_conflict (instruments d) (instrument_select raw)))"
  by (simp_all add: load_dimensions_def insert_expiries_def insert_instruments_def
        create_duckdb_schema_def)

lemma instrument_conflict_refl: "instrument_conflict c c"
  by (simp add: instrument_conflict_def)

lemma expiry_join_members:
  "(k, i) \<in> set (expiry_join itbl ks)
   \<Longrightarrow> k \<in> set ks \<and> i \<in> set itbl \<and> on_instrument (fst k) (fst (snd k)) i"
  by (auto simp: expiry_join_def)

lemma expiry_select_members:
  assumes "e \<in> set (expiry_select raw itbl)"
  shows "\<exists>k i. (k, i) \<in> set (expiry_join itbl (expiry_keys raw))
           \<and> e_instrument_id e = Some (i_instrument_id i)"
proof -
  let ?js = "expiry_join itbl (expiry_keys raw)"
  from assms obtain p where p: "p \<in> set (row_number ?js)" "e = expiry_row p"
    by (auto simp: expiry_select_def)
  from p(1) have "snd p \<in> snd ` set (row_number ?js)" by (rule imageI)
  then have "snd p \<in> set ?js" by (simp only: row_number_snd_image[symmetric])
  then have "(fst (snd p), snd (snd p)) \<in> set ?js" by simp
  moreover have "e_instrument_id e = Some (i_instrument_id (snd (snd p)))"
    by (simp add: p(2))
  ultimately show ?thesis by blast
qed

lemma fresh_expiries_subset:
  "set (expiries (fresh_dims raw)) \<subseteq> set (expiry_select raw (instrument_select raw))"
  using idn_subset[of expiry_conflict "[]" "expiry_select raw (instrument_select raw)"]
  by (simp add: fresh_dims_tables)

lemma instrument_for_pair:
  assumes "r \<in> set raw"
  shows "\<exists>n. instrument_row (n, r_instrument r, r_symbol r) \<in> set (instrument_select raw)"
proof -
  let ?ps = "row_number (instrument_keys raw)"
  have "(r_instrument r, r_symbol r) \<in> set (instrument_keys raw)"
    using assms by (force simp: instrument_keys_def)
  then have "(r_instrument r, r_symbol r) \<in> snd ` set ?ps"
    by (simp only: row_number_snd_image[symmetric])
  then obtain p where p: "p \<in> set ?ps" "snd p = (r_instrument r, r_symbol r)"
    by (auto simp: image_iff)
  from p(2) have "p = (fst p, r_instrument r, r_symbol r)" by (simp add: prod_eq_iff)
  with p(1) have "instrument_row (fst p, r_instrument r, r_symbol r) \<in> set (instrument_select raw)"
    by (metis image_eqI instrument_select_def set_map)
  then show ?thesis ..
qed

lemma filter_key_singleton:
  assumes "distinct (map f xs)" "x \<in> set xs"
  shows "filter (\<lambda>y. f y = f x) xs = [x]"
proof (rule filter_singleton)
  from assms(1) show "distinct xs" by (simp only: distinct_map)
  show "x \<in> set xs" by fact
  show "f x = f x" ..
  from assms(1) have inj: "inj_on f (set xs)" by (simp only: distinct_map)
  show "\<forall>y\<in>set xs. f y = f x \<longrightarrow> y = x"
    using inj assms(2) by (auto dest: inj_onD)
qed

lemma filter_key_singleton':
  assumes "distinct (map f xs)" "x \<in> set xs"
  shows "filter (\<lambda>y. f x = f y) xs = [x]"
proof -
  have "(\<lambda>y. f x = f y) = (\<lambda>y. f y = f x)" by auto
  then show ?thesis using filter_key_singleton[OF assms] by simp
qed

lemma fresh_expiry_ids_distinct: "distinct (map e_expiry_id (expiries (fresh_dims raw)))"
proof -
  let ?cands = "expiry_select raw (instrument_select raw)"
  have "distinct (insert_do_nothing expiry_conflict [] ?cands)"
    by (rule idn_distinct) (auto intro: expiry_conflict_refl)
  then have d: "distinct (expiries (fresh_dims raw))" by (simp add: fresh_dims_tables)
  have "inj_on e_expiry_id (set ?cands)"
    using expiry_ids_distinct[of raw "instrument_select raw"] by (simp only: distinct_map)
  then have "inj_on e_expiry_id (set (expiries (fresh_dims raw)))"
    using fresh_expiries_subset by (rule inj_on_subset)
  with d show ?thesis by (simp add: distinct_map)
qed

lemma fresh_trade_members:
  assumes "t \<in> set (trades (fresh_load raw))"
  shows "\<exists>n r i e. t = trade_row (n, r, i, e) \<and> r \<in> set raw
           \<and> i \<in> set (instruments (fresh_load raw))
           \<and> e \<in> set (expiries (fresh_load raw))"
proof -
  let ?D = "fresh_dims raw"
  let ?js = "concat (map (fact_rows ?D) raw)"
  from assms obtain p where p: "p \<in> set (row_number ?js)" "t = trade_row p"
    by (auto simp: fresh_load_tables trade_select_def)
  from p(1) have "snd p \<in> snd ` set (row_number ?js)" by (rule imageI)
  then have "snd p \<in> set ?js" by (simp only: row_number_snd_image[symmetric])
  then obtain r where r: "r \<in> set raw" "snd p \<in> set (fact_rows ?D r)" by auto
  from r(2) have "(fst (snd p), fst (snd (snd p)), snd (snd (snd p))) \<in> set (fact_rows ?D r)"
    by simp
  from fact_rows_members[OF this]
  have m: "fst (snd p) = r" "fst (snd (snd p)) \<in> set (instruments ?D)"
    "snd (snd (snd p)) \<in> set (expiries ?D)" by simp_all
  have t: "t = trade_row (fst p, r, fst (snd (snd p)), snd (snd (snd p)))"
    using p(2) m(1) by (metis prod.collapse)
  have "fst (snd (snd p)) \<in> set (instruments (fresh_load raw))"
    "snd (snd (snd p)) \<in> set (expiries (fresh_load raw))"
    using m(2,3) by (simp_all add: fresh_load_tables fresh_dims_tables)
  with t r(1) show ?thesis by blast
qed

lemma sql_sum_all_some:
  "sql_sum (map (\<lambda>x. Some (g x)) xs) = (if xs = [] then None else Some (sum_list (map g xs)))"
  by (induction xs) auto

lemma fresh_trade_columns:
  assumes "\<And>p. f (trade_row p) = g (fst (snd p))"
  shows "map f (trades (fresh_load raw)) = map g (filter loadable raw)"
proof -
  let ?js = "concat (map (fact_rows (fresh_dims raw)) raw)"
  have "map f (trades (fresh_load raw)) = map (\<lambda>p. g (fst (snd p))) (row_number ?js)"
    by (simp add: fresh_load_tables trade_select_def assms comp_def)
  also have "\<dots> = map (\<lambda>q. g (fst q)) (map snd (row_number ?js))"
    by (simp only: map_map comp_def)
  also have "\<dots> = map g (map fst ?js)"
    by (simp add: comp_def)
  also have "map fst ?js = filter loadable raw"
    by (rule fresh_fact_sources) simp
  finally show ?thesis .
qed

lemma instrument_row_series:
  "i_series (instrument_row p) = Some (case i_instrument_type (instrument_row p) of
                            None \<Rightarrow> ''FUT''
                          | Some s \<Rightarrow> if sublist ''OPT'' s then ''OPT'' else ''FUT'')"
  by (cases "fst (snd p)") (simp_all add: sql_like_contains_def is_true_def)

lemma schema_keeps_tables [simp]:
  "instruments (create_duckdb_schema d) = instruments d"
  "expiries (create_duckdb_schema d) = expiries d"
  "trades (create_duckdb_schema d) = trades d"
  "indexes (create_duckdb_schema d) = indexes d"
  by (simp_all add: create_duckdb_schema_def)

lemma main_parsed:
  "create_raw_data E csv = Inr raw \<Longrightarrow> main E csv d = main_from_raw_data raw d"
  by (simp add: main_def load_data_duckdb_def main_from_raw_data_def)

lemma main_parse_error:
  "create_raw_data E csv = Inl e \<Longrightarrow> main E csv d = (Some e, create_duckdb_schema d)"
  by (simp add: main_def load_data_duckdb_def)

lemma select_row_bad_expiry:
  "EXPIRY_DT c = Some s \<Longrightarrow> strptime E s ''%d-%b-%Y'' = Inl e \<Longrightarrow> select_row E c = Inl e"
  by (simp add: select_row_def strptime_cell_def)

lemma create_raw_data_raises:
  "c \<in> set csv \<Longrightarrow> select_row E c = Inl e \<Longrightarrow> \<exists>e'. create_raw_data E csv = Inl e'"
  by (induction csv) (auto split: sum.splits)

lemma dimensions_idempotent_parsed:
  "instruments (snd (main_from_raw_data raw (snd (main_from_raw_data raw d))))
     = instruments (snd (main_from_raw_data raw d))"
  "expiries (snd (main_from_raw_data raw (snd (main_from_raw_data raw d))))
     = expiries (snd (main_from_raw_data raw d))"
proof -
  let ?I = "insert_do_nothing instrument_conflict (instruments d) (instrument_select raw)"
  have i1: "instruments (snd (main_from_raw_data raw d)) = ?I"
    by (simp add: main_dimensions load_dimensions_tables)
  have e1: "expiries (snd (main_from_raw_data raw d))
              = insert_do_nothing expiry_conflict (expiries d) (expiry_select raw ?I)"
    by (simp add: main_dimensions load_dimensions_tables)
  have i2: "insert_do_nothing instrument_conflict ?I (instrument_select raw) = ?I"
    by (rule idn_idem) (simp add: instrument_conflict_refl)
  have e2: "insert_do_nothing expiry_conflict
              (insert_do_nothing expiry_conflict (expiries d) (expiry_select raw ?I))
              (expiry_select raw ?I)
            = insert_do_nothing expiry_conflict (expiries d) (expiry_select raw ?I)"
    by (rule idn_idem) (simp add: expiry_conflict_refl)
  show "instruments (snd (main_from_raw_data raw (snd (main_from_raw_data raw d))))
     = instruments (snd (main_from_raw_data raw d))"
    by (simp add: main_dimensions[of raw "snd (main_from_raw_data raw d)"]
          load_dimensions_tables i1 i2)
  show "expiries (snd (main_from_raw_data raw (snd (main_from_raw_data raw d))))
     = expiries (snd (main_from_raw_data raw d))"
    by (simp add: main_dimensions[of raw "snd (main_from_raw_data raw d)"]
          load_dimensions_tables i1 e1 i2 e2)
qed

lemma dimensions_idempotent_main:
  "instruments (snd (main E csv (snd (main E csv d)))) = instruments (snd (main E csv d))"
  "expiries (snd (main E csv (snd (main E csv d)))) = expiries (snd (main E csv d))"
proof -
  show "instruments (snd (main E csv (snd (main E csv d)))) = instruments (snd (main E csv d))"
  proof (cases "create_raw_data E csv")
    case (Inl e)
    then show ?thesis by (simp add: main_parse_error)
  next
    case (Inr raw)
    then show ?thesis by (simp add: main_parsed dimensions_idempotent_parsed)
  qed
  show "expiries (snd (main E csv (snd (main E csv d)))) = expiries (snd (main E csv d))"
  proof (cases "create_raw_data E csv")
    case (Inl e)
    then show ?thesis by (simp add: main_parse_error)
  next
    case (Inr raw)
    then show ?thesis by (simp add: main_parsed dimensions_idempotent_parsed)
  qed
qed


section \<open>Properties of the loader\<close>

text \<open>
  C1 (as the code has it). A source row is kept out of the fact table exactly when
  its instrument, its symbol, its expiry date or its timestamp is null: the fact query
  ends with \<open>WHERE r.timestamp IS NOT NULL\<close>, so a null timestamp excludes the row as
  a null join column does. Adding a row to the source adds one Trade row when the
  four columns are present and none otherwise. A row with these four columns present
  is loaded whatever its measures are, each null measure stored as 0.
\<close>

theorem fact_exclusion_by_null_key_or_timestamp:
  "length (trades (fresh_load (xs @ r # ys)))
     = length (trades (fresh_load (xs @ ys)))
       + (if r_instrument r = None \<or> r_symbol r = None
             \<or> r_expiry_dt r = None \<or> r_timestamp r = None then 0 else 1)
   \<and> (r_instrument r \<noteq> None \<and> r_symbol r \<noteq> None
        \<and> r_expiry_dt r \<noteq> None \<and> r_timestamp r \<noteq> None \<longrightarrow>
      (let t = trades (fresh_load (xs @ r # ys)) ! length (filter loadable xs) in
         t_timestamp t = r_timestamp r
         \<and> t_open t = coalesce (r_open r) (Some 0)
         \<and> t_high t = coalesce (r_high r) (Some 0)
         \<and> t_low t = coalesce (r_low r) (Some 0)
         \<and> t_close t = coalesce (r_close r) (Some 0)
         \<and> t_settle_price t = coalesce (r_settle_pr r) (Some 0)
         \<and> t_contracts t = coalesce (r_contracts r) (Some 0)
         \<and> t_value_in_lakh t = coalesce (r_val_inlakh r) (Some 0)
         \<and> t_open_interest t = coalesce (r_open_int r) (Some 0)
         \<and> t_change_in_oi t = coalesce (r_chg_in_oi r) (Some 0)))"
proof (intro conjI impI)
  show "length (trades (fresh_load (xs @ r # ys)))
     = length (trades (fresh_load (xs @ ys)))
       + (if r_instrument r = None \<or> r_symbol r = None
             \<or> r_expiry_dt r = None \<or> r_timestamp r = None then 0 else 1)"
    by (simp add: fresh_trade_count loadable_def)
next
  assume "r_instrument r \<noteq> None \<and> r_symbol r \<noteq> None
        \<and> r_expiry_dt r \<noteq> None \<and> r_timestamp r \<noteq> None"
  then have "loadable r" by (simp add: loadable_def)
  from trade_at[OF this, of xs ys] obtain i e where
    "trades (fresh_load (xs @ r # ys)) ! length (filter loadable xs)
       = trade_row (int (Suc (length (filter loadable xs))), r, i, e)"
    by blast
  then show "let t = trades (fresh_load (xs @ r # ys)) ! length (filter loadable xs) in
         t_timestamp t = r_timestamp r
         \<and> t_open t = coalesce (r_open r) (Some 0)
         \<and> t_high t = coalesce (r_high r) (Some 0)
         \<and> t_low t = coalesce (r_low r) (Some 0)
         \<and> t_close t = coalesce (r_close r) (Some 0)
         \<and> t_settle_price t = coalesce (r_settle_pr r) (Some 0)
         \<and> t_contracts t = coalesce (r_contracts r) (Some 0)
         \<and> t_value_in_lakh t = coalesce (r_val_inlakh r) (Some 0)
         \<and> t_open_interest t = coalesce (r_open_int r) (Some 0)
         \<and> t_change_in_oi t = coalesce (r_chg_in_oi r) (Some 0)"
    by (simp add: Let_def)
qed

text \<open>The option row, whose high price and open interest are blank, after the futures
  row: it is loaded as the second Trade row, with 0 for both.\<close>

theorem fact_exclusion_by_null_key_or_timestamp_witness:
  "r_instrument scenario_opt \<noteq> None \<and> r_symbol scenario_opt \<noteq> None
   \<and> r_expiry_dt scenario_opt \<noteq> None \<and> r_timestamp scenario_opt \<noteq> None
   \<and> r_high scenario_opt = None \<and> r_open_int scenario_opt = None
   \<and> length (trades (fresh_load [scenario_a, scenario_opt]))
        = length (trades (fresh_load [scenario_a])) + 1
   \<and> t_high (trades (fresh_load [scenario_a, scenario_opt]) ! 1) = Some 0
   \<and> t_open_interest (trades (fresh_load [scenario_a, scenario_opt]) ! 1) = Some 0
   \<and> t_open (trades (fresh_load [scenario_a, scenario_opt]) ! 1) = Some 4550"
proof -
  have h: "r_instrument scenario_opt \<noteq> None \<and> r_symbol scenario_opt \<noteq> None
     \<and> r_expiry_dt scenario_opt \<noteq> None \<and> r_timestamp scenario_opt \<noteq> None"
    by (simp add: scenario_opt_def)
  have p: "length (filter loadable [scenario_a]) = 1"
    by (simp add: loadable_def scenario_a_def)
  have m: "coalesce (r_high scenario_opt) (Some 0) = Some 0"
    "coalesce (r_open_int scenario_opt) (Some 0) = Some 0"
    "coalesce (r_open scenario_opt) (Some 0) = Some 4550"
    "r_high scenario_opt = None" "r_open_int scenario_opt = None"
    by (simp_all add: scenario_opt_def)
  from fact_exclusion_by_null_key_or_timestamp[of "[scenario_a]" scenario_opt "[]"] h p m
  show ?thesis by (simp add: Let_def)
qed

text \<open>
  C1 as the specification words it fails: the option row with only its timestamp
  null has every identity and expiry column, gets its instrument and its expiry row,
  and still yields no Trade row.
\<close>

theorem timestamp_null_row_not_loaded:
  "r_instrument no_timestamp_row \<noteq> None \<and> r_symbol no_timestamp_row \<noteq> None
   \<and> r_expiry_dt no_timestamp_row \<noteq> None \<and> r_strike_pr no_timestamp_row \<noteq> None
   \<and> r_option_typ no_timestamp_row \<noteq> None \<and> r_timestamp no_timestamp_row = None
   \<and> length (instruments (fresh_load [no_timestamp_row])) = 1
   \<and> length (expiries (fresh_load [no_timestamp_row])) = 1
   \<and> trades (fresh_load [no_timestamp_row]) = []"
  by code_simp

text \<open>
  C3. Running the script a second time over the same source leaves the instruments
  and expiries tables, hence their row counts, as the first run left them, whatever
  the store held before the first run: every re-offered row conflicts with a row
  already there and is skipped. This holds for a run given the parsed rows, and for
  the script on the source file under any engine. (The dimension inserts cannot
  raise; the second run does raise later, at the plain \<open>INSERT INTO trades\<close> or at
  \<open>CREATE INDEX\<close>.)
\<close>

theorem dimension_insert_idempotent:
  "(instruments (snd (main_from_raw_data raw (snd (main_from_raw_data raw d))))
      = instruments (snd (main_from_raw_data raw d))
    \<and> expiries (snd (main_from_raw_data raw (snd (main_from_raw_data raw d))))
      = expiries (snd (main_from_raw_data raw d))
    \<and> length (instruments (snd (main_from_raw_data raw (snd (main_from_raw_data raw d)))))
        = length (instruments (snd (main_from_raw_data raw d)))
    \<and> length (expiries (snd (main_from_raw_data raw (snd (main_from_raw_data raw d)))))
        = length (expiries (snd (main_from_raw_data raw d))))
   \<and> (instruments (snd (main E csv (snd (main E csv d)))) = instruments (snd (main E csv d))
    \<and> expiries (snd (main E csv (snd (main E csv d)))) = expiries (snd (main E csv d))
    \<and> length (instruments (snd (main E csv (snd (main E csv d)))))
        = length (instruments (snd (main E csv d)))
    \<and> length (expiries (snd (main E csv (snd (main E csv d)))))
        = length (expiries (snd (main E csv d))))"
proof -
  have parsed_i: "instruments (snd (main_from_raw_data raw (snd (main_from_raw_data raw d))))
      = instruments (snd (main_from_raw_data raw d))"
    and parsed_e: "expiries (snd (main_from_raw_data raw (snd (main_from_raw_data raw d))))
      = expiries (snd (main_from_raw_data raw d))"
    by (rule dimensions_idempotent_parsed)+
  have file_i: "instruments (snd (main E csv (snd (main E csv d))))
      = instruments (snd (main E csv d))"
    and file_e: "expiries (snd (main E csv (snd (main E csv d))))
      = expiries (snd (main E csv d))"
    by (rule dimensions_idempotent_main)+
  from parsed_i parsed_e file_i file_e show ?thesis by simp
qed

text \<open>Two runs over three rows, two of them the same: two instruments and two
  expiries after the second run as after the first. Two runs over two rows of the
  source file for one contract: one instrument and one expiry.\<close>

theorem dimension_insert_idempotent_witness:
  "length (instruments (snd (main_from_raw_data [scenario_a, scenario_opt, scenario_a]
       (snd (main_from_raw_data [scenario_a, scenario_opt, scenario_a] empty_db))))) = 2
   \<and> length (expiries (snd (main_from_raw_data [scenario_a, scenario_opt, scenario_a]
       (snd (main_from_raw_data [scenario_a, scenario_opt, scenario_a] empty_db))))) = 2
   \<and> length (instruments (snd (main sample_engine [csv_scenario_a, csv_next_day]
       (snd (main sample_engine [csv_scenario_a, csv_next_day] empty_db))))) = 1
   \<and> length (expiries (snd (main sample_engine [csv_scenario_a, csv_next_day]
       (snd (main sample_engine [csv_scenario_a, csv_next_day] empty_db))))) = 1"
proof -
  have "length (instruments (snd (main_from_raw_data [scenario_a, scenario_opt, scenario_a]
          empty_db))) = 2"
    by code_simp
  moreover have "length (expiries (snd (main_from_raw_data [scenario_a, scenario_opt, scenario_a]
          empty_db))) = 2"
    by code_simp
  moreover have "length (instruments (snd (main sample_engine [csv_scenario_a, csv_next_day]
          empty_db))) = 1"
    by code_simp
  moreover have "length (expiries (snd (main sample_engine [csv_scenario_a, csv_next_day]
          empty_db))) = 1"
    by code_simp
  ultimately show ?thesis
    using dimension_insert_idempotent[of "[scenario_a, scenario_opt, scenario_a]" empty_db
            sample_engine "[csv_scenario_a, csv_next_day]"]
    by simp
qed

text \<open>
  C2 (as the code has it). A source row whose instrument type or symbol is null
  matches no instrument in either join, so it yields no expiry candidate and no Trade
  row, and no expiry row hangs off an instrument with a null type or symbol. The
  instruments query, however, has no filter: the row's (instrument, symbol) pair,
  null included, is inserted as an instruments row.
\<close>

theorem null_identity_row_kept_only_as_instrument:
  assumes "r_instrument r = None \<or> r_symbol r = None"
  shows "expiry_join itbl [expiry_key_of r] = []
     \<and> fact_rows d r = []
     \<and> length (trades (fresh_load (xs @ r # ys))) = length (trades (fresh_load (xs @ ys)))
     \<and> (\<forall>e\<in>set (expiries (fresh_load (xs @ r # ys))).
          \<forall>i\<in>set (instruments (fresh_load (xs @ r # ys))).
            e_instrument_id e = Some (i_instrument_id i)
            \<longrightarrow> i_instrument_type i \<noteq> None \<and> i_symbol i \<noteq> None)
     \<and> (\<exists>i\<in>set (instruments (fresh_load (xs @ r # ys))).
            i_instrument_type i = r_instrument r \<and> i_symbol i = r_symbol r)"
proof (intro conjI ballI impI)
  show "expiry_join itbl [expiry_key_of r] = []"
    using assms by (auto simp: expiry_join_def expiry_key_of_def filter_empty_conv)
  have nl: "\<not> loadable r" using assms by (auto simp: loadable_def)
  then show "fact_rows d r = []" by (rule fact_rows_not_loadable)
  show "length (trades (fresh_load (xs @ r # ys))) = length (trades (fresh_load (xs @ ys)))"
    using nl by (simp add: fresh_trade_count)
next
  let ?raw = "xs @ r # ys"
  fix e i
  assume e: "e \<in> set (expiries (fresh_load ?raw))"
    and i: "i \<in> set (instruments (fresh_load ?raw))"
    and ei: "e_instrument_id e = Some (i_instrument_id i)"
  from e have "e \<in> set (expiry_select ?raw (instrument_select ?raw))"
    using fresh_expiries_subset[of ?raw] by (auto simp: fresh_load_tables)
  from expiry_select_members[OF this] obtain k j where
    kj: "(k, j) \<in> set (expiry_join (instrument_select ?raw) (expiry_keys ?raw))"
    and ej: "e_instrument_id e = Some (i_instrument_id j)" by blast
  from expiry_join_members[OF kj] have j: "j \<in> set (instrument_select ?raw)"
    "on_instrument (fst k) (fst (snd k)) j" by simp_all
  have inj: "inj_on i_instrument_id (set (instrument_select ?raw))"
    using instrument_ids_distinct[of ?raw] by (simp only: distinct_map)
  have "i_instrument_id i = i_instrument_id j" using ei ej by simp
  with inj have "i = j"
    by (rule inj_onD) (use i j(1) in \<open>simp_all add: fresh_load_tables\<close>)
  with j(2) show "i_instrument_type i \<noteq> None" "i_symbol i \<noteq> None" by auto
next
  let ?raw = "xs @ r # ys"
  have "r \<in> set ?raw" by simp
  from instrument_for_pair[OF this] obtain n where
    "instrument_row (n, r_instrument r, r_symbol r) \<in> set (instrument_select ?raw)" ..
  then show "\<exists>i\<in>set (instruments (fresh_load ?raw)).
            i_instrument_type i = r_instrument r \<and> i_symbol i = r_symbol r"
    by (intro bexI[of _ "instrument_row (n, r_instrument r, r_symbol r)"])
       (simp_all add: fresh_load_tables)
qed

text \<open>The option row without its instrument type, after the futures row: no Trade
  row more than for the futures row alone.\<close>

theorem null_identity_row_kept_only_as_instrument_witness:
  "r_instrument no_instrument_row = None
   \<and> fact_rows (fresh_dims [scenario_a, no_instrument_row]) no_instrument_row = []
   \<and> length (trades (fresh_load [scenario_a, no_instrument_row]))
        = length (trades (fresh_load [scenario_a]))"
proof -
  have h: "r_instrument no_instrument_row = None"
    by (simp add: no_instrument_row_def)
  from null_identity_row_kept_only_as_instrument[OF disjI1[OF h],
         of _ "fresh_dims [scenario_a, no_instrument_row]" "[scenario_a]" "[]"] h
  show ?thesis by simp
qed

text \<open>
  C2 as the specification words it fails: the row without an instrument type does
  produce a row of the instruments dimension.
\<close>

theorem null_instrument_row_inserted_as_instrument:
  "r_instrument no_instrument_row = None
   \<and> instruments (fresh_load [no_instrument_row]) =
       [\<lparr>i_instrument_id = 1, i_exchange_id = Some 1, i_instrument_type = None,
         i_symbol = Some ''ACC'', i_series = Some ''FUT''\<rparr>]"
  by code_simp

text \<open>
  C4. After a first load every Trade row's \<open>instrument_id\<close> is the key of exactly
  one row of the instruments table, and its \<open>expiry_id\<close> the key of exactly one row
  of the expiries table.
\<close>

theorem join_completeness:
  "\<forall>t\<in>set (trades (fresh_load raw)).
      length (filter (\<lambda>i. is_true (sql_eq (Some (i_instrument_id i)) (t_instrument_id t)))
                (instruments (fresh_load raw))) = 1
    \<and> length (filter (\<lambda>e. is_true (sql_eq (Some (e_expiry_id e)) (t_expiry_id t)))
                (expiries (fresh_load raw))) = 1"
proof
  fix t assume "t \<in> set (trades (fresh_load raw))"
  from fresh_trade_members[OF this] obtain n r i e where
    t: "t = trade_row (n, r, i, e)"
    and i: "i \<in> set (instruments (fresh_load raw))"
    and e: "e \<in> set (expiries (fresh_load raw))" by blast
  have "filter (\<lambda>j. i_instrument_id i = i_instrument_id j) (instruments (fresh_load raw)) = [i]"
    using i by (intro filter_key_singleton') (simp_all add: fresh_load_tables instrument_ids_distinct)
  then have 1: "length (filter (\<lambda>j. is_true (sql_eq (Some (i_instrument_id j)) (t_instrument_id t)))
                (instruments (fresh_load raw))) = 1"
    by (simp add: t)
  have "filter (\<lambda>x. e_expiry_id e = e_expiry_id x) (expiries (fresh_load raw)) = [e]"
    using e by (intro filter_key_singleton') (simp_all add: fresh_load_tables fresh_expiry_ids_distinct)
  then have 2: "length (filter (\<lambda>x. is_true (sql_eq (Some (e_expiry_id x)) (t_expiry_id t)))
                (expiries (fresh_load raw))) = 1"
    by (simp add: t)
  from 1 2 show "length (filter (\<lambda>i. is_true (sql_eq (Some (i_instrument_id i)) (t_instrument_id t)))
                (instruments (fresh_load raw))) = 1
    \<and> length (filter (\<lambda>e. is_true (sql_eq (Some (e_expiry_id e)) (t_expiry_id t)))
                (expiries (fresh_load raw))) = 1" ..
qed

text \<open>The second Trade row of a load of the two sample rows.\<close>

theorem join_completeness_witness:
  "trades (fresh_load [scenario_a, scenario_opt]) ! 1
     \<in> set (trades (fresh_load [scenario_a, scenario_opt]))
   \<and> length (filter (\<lambda>i. is_true (sql_eq (Some (i_instrument_id i))
              (t_instrument_id (trades (fresh_load [scenario_a, scenario_opt]) ! 1))))
        (instruments (fresh_load [scenario_a, scenario_opt]))) = 1
   \<and> length (filter (\<lambda>e. is_true (sql_eq (Some (e_expiry_id e))
              (t_expiry_id (trades (fresh_load [scenario_a, scenario_opt]) ! 1))))
        (expiries (fresh_load [scenario_a, scenario_opt]))) = 1"
proof -
  have "length (trades (fresh_load [scenario_a, scenario_opt])) = 2"
    by code_simp
  then have "trades (fresh_load [scenario_a, scenario_opt]) ! 1
     \<in> set (trades (fresh_load [scenario_a, scenario_opt]))"
    by (intro nth_mem) simp
  with join_completeness[of "[scenario_a, scenario_opt]"] show ?thesis by blast
qed

text \<open>
  C5. After a first load none of the nine measure columns of a Trade row is null:
  the Trade rows carry, in source order, the measures of the loadable source rows,
  each the source value when there is one and 0 otherwise. So a row with a blank
  \<open>OPEN_INT\<close> has \<open>open_interest = 0\<close> and adds 0 to \<open>SUM(open_interest)\<close>.
\<close>

theorem measures_defaulted_not_null:
  "(\<forall>t\<in>set (trades (fresh_load raw)).
       t_open t \<noteq> None \<and> t_high t \<noteq> None \<and> t_low t \<noteq> None \<and> t_close t \<noteq> None
       \<and> t_settle_price t \<noteq> None \<and> t_contracts t \<noteq> None \<and> t_value_in_lakh t \<noteq> None
       \<and> t_open_interest t \<noteq> None \<and> t_change_in_oi t \<noteq> None)
   \<and> map trade_measures (trades (fresh_load raw)) = map defaulted_measures (filter loadable raw)
   \<and> sql_sum (map t_open_interest (trades (fresh_load raw)))
       = (if filter loadable raw = [] then None
          else Some (sum_list (map (\<lambda>r. or_zero (r_open_int r)) (filter loadable raw))))"
proof (intro conjI ballI)
  fix t assume "t \<in> set (trades (fresh_load raw))"
  from fresh_trade_members[OF this] obtain n r i e where "t = trade_row (n, r, i, e)" by blast
  then show "t_open t \<noteq> None" "t_high t \<noteq> None" "t_low t \<noteq> None" "t_close t \<noteq> None"
    "t_settle_price t \<noteq> None" "t_contracts t \<noteq> None" "t_value_in_lakh t \<noteq> None"
    "t_open_interest t \<noteq> None" "t_change_in_oi t \<noteq> None"
    by (simp_all add: coalesce_or_zero)
next
  show "map trade_measures (trades (fresh_load raw)) = map defaulted_measures (filter loadable raw)"
    by (rule fresh_trade_columns)
       (simp add: trade_measures_def defaulted_measures_def coalesce_or_zero)
next
  have "map t_open_interest (trades (fresh_load raw))
          = map (\<lambda>r. Some (or_zero (r_open_int r))) (filter loadable raw)"
    by (rule fresh_trade_columns) (simp add: coalesce_or_zero)
  then show "sql_sum (map t_open_interest (trades (fresh_load raw)))
       = (if filter loadable raw = [] then None
          else Some (sum_list (map (\<lambda>r. or_zero (r_open_int r)) (filter loadable raw))))"
    by (simp add: sql_sum_all_some)
qed

text \<open>The futures row has open interest 7, the option row a blank one: both are
  loaded, the second with 0, and the sum is 7.\<close>

theorem measures_defaulted_not_null_witness:
  "r_open_int scenario_opt = None
   \<and> trades (fresh_load [scenario_a, scenario_opt]) ! 1
       \<in> set (trades (fresh_load [scenario_a, scenario_opt]))
   \<and> t_open_interest (trades (fresh_load [scenario_a, scenario_opt]) ! 1) \<noteq> None
   \<and> map trade_measures (trades (fresh_load [scenario_a, scenario_opt]))
       = [(Some 1100000, Some 1105000, Some 1095000, Some 1101000, Some 1101000,
           Some 5, Some 41250, Some 7, Some 2),
          (Some 4550, Some 0, Some 4100, Some 4300, Some 4300,
           Some 12, Some 7420, Some 0, Some (- 3))]
   \<and> sql_sum (map t_open_interest (trades (fresh_load [scenario_a, scenario_opt]))) = Some 7"
proof -
  have l: "loadable scenario_a" "loadable scenario_opt"
    by (simp_all add: loadable_def scenario_a_def scenario_opt_def)
  then have f: "filter loadable [scenario_a, scenario_opt] = [scenario_a, scenario_opt]"
    by simp
  have "length (trades (fresh_load [scenario_a, scenario_opt])) = 2"
    by (simp add: fresh_trade_count l)
  then have m: "trades (fresh_load [scenario_a, scenario_opt]) ! 1
     \<in> set (trades (fresh_load [scenario_a, scenario_opt]))"
    by (intro nth_mem) simp
  have v: "defaulted_measures scenario_a
             = (Some 1100000, Some 1105000, Some 1095000, Some 1101000, Some 1101000,
                Some 5, Some 41250, Some 7, Some 2)"
    "defaulted_measures scenario_opt
             = (Some 4550, Some 0, Some 4100, Some 4300, Some 4300,
                Some 12, Some 7420, Some 0, Some (- 3))"
    "or_zero (r_open_int scenario_a) = 7" "or_zero (r_open_int scenario_opt) = 0"
    "r_open_int scenario_opt = None" "or_zero None = 0"
    by (simp_all add: defaulted_measures_def or_zero_def scenario_a_def scenario_opt_def)
  from measures_defaulted_not_null[of "[scenario_a, scenario_opt]"] m
  show ?thesis by (simp add: l v)
qed

text \<open>
  C6. After a first load, a source row with instrument, symbol and expiry date
  resolves to exactly one instruments row and, under it, to exactly one expiries row.
  That row stores strike price 0 when the source strike is null and option type
  \<open>XX\<close> when the source option type is null; for a futures row (both null) it is the
  only \<open>(0, XX)\<close> row of that instrument and expiry date. No expiries row has a null
  strike price or option type.
\<close>

theorem futures_sentinel:
  assumes "r \<in> set raw"
    and "r_instrument r \<noteq> None" "r_symbol r \<noteq> None" "r_expiry_dt r \<noteq> None"
  shows "(\<exists>i e. filter (on_instrument (r_instrument r) (r_symbol r))
                   (instruments (fresh_load raw)) = [i]
              \<and> filter (on_expiry r i) (expiries (fresh_load raw)) = [e]
              \<and> e_expiry_date e = r_expiry_dt r
              \<and> (r_strike_pr r = None \<longrightarrow> e_strike_price e = Some 0)
              \<and> (r_option_typ r = None \<longrightarrow> e_option_type e = Some ''XX'')
              \<and> (r_strike_pr r = None \<and> r_option_typ r = None \<longrightarrow>
                   filter (\<lambda>x. e_instrument_id x = Some (i_instrument_id i)
                               \<and> e_expiry_date x = r_expiry_dt r
                               \<and> e_strike_price x = Some 0
                               \<and> e_option_type x = Some ''XX'')
                     (expiries (fresh_load raw)) = [e]))
     \<and> (\<forall>x\<in>set (expiries (fresh_load raw)).
           e_strike_price x \<noteq> None \<and> e_option_type x \<noteq> None)"
proof
  have cols: "e_strike_price x \<noteq> None \<and> e_option_type x \<noteq> None"
    if "x \<in> set (expiries (fresh_load raw))" for x
  proof -
    from that have "x \<in> set (expiry_select raw (instrument_select raw))"
      using fresh_expiries_subset[of raw] by (auto simp: fresh_load_tables)
    from expiry_select_cols[OF this] show ?thesis by simp
  qed
  then show "\<forall>x\<in>set (expiries (fresh_load raw)).
           e_strike_price x \<noteq> None \<and> e_option_type x \<noteq> None" by blast
  from dims_match_fresh[OF assms] obtain i e where ie:
    "filter (on_instrument (r_instrument r) (r_symbol r)) (instruments (fresh_load raw)) = [i]"
    "filter (on_expiry r i) (expiries (fresh_load raw)) = [e]"
    "e_expiry_date e = r_expiry_dt r"
    "e_strike_price e = coalesce (r_strike_pr r) (Some 0)"
    "e_option_type e = coalesce (r_option_typ r) (Some ''XX'')"
    by (auto simp: fresh_load_tables fresh_dims_tables)
  have only: "filter (\<lambda>x. e_instrument_id x = Some (i_instrument_id i)
                               \<and> e_expiry_date x = r_expiry_dt r
                               \<and> e_strike_price x = Some 0
                               \<and> e_option_type x = Some ''XX'')
                     (expiries (fresh_load raw)) = [e]"
    if fut: "r_strike_pr r = None \<and> r_option_typ r = None"
  proof -
    have "filter (\<lambda>x. e_instrument_id x = Some (i_instrument_id i)
                               \<and> e_expiry_date x = r_expiry_dt r
                               \<and> e_strike_price x = Some 0
                               \<and> e_option_type x = Some ''XX'')
                     (expiries (fresh_load raw))
            = filter (on_expiry r i) (expiries (fresh_load raw))"
    proof (rule filter_cong[OF refl])
      fix x assume "x \<in> set (expiries (fresh_load raw))"
      from cols[OF this] obtain s t where "e_strike_price x = Some s" "e_option_type x = Some t"
        by auto
      then show "(e_instrument_id x = Some (i_instrument_id i)
                               \<and> e_expiry_date x = r_expiry_dt r
                               \<and> e_strike_price x = Some 0
                               \<and> e_option_type x = Some ''XX'') = on_expiry r i x"
        using fut assms(4) by (auto simp: on_expiry_iff)
    qed
    with ie(2) show ?thesis by simp
  qed
  show "\<exists>i e. filter (on_instrument (r_instrument r) (r_symbol r))
                   (instruments (fresh_load raw)) = [i]
              \<and> filter (on_expiry r i) (expiries (fresh_load raw)) = [e]
              \<and> e_expiry_date e = r_expiry_dt r
              \<and> (r_strike_pr r = None \<longrightarrow> e_strike_price e = Some 0)
              \<and> (r_option_typ r = None \<longrightarrow> e_option_type e = Some ''XX'')
              \<and> (r_strike_pr r = None \<and> r_option_typ r = None \<longrightarrow>
                   filter (\<lambda>x. e_instrument_id x = Some (i_instrument_id i)
                               \<and> e_expiry_date x = r_expiry_dt r
                               \<and> e_strike_price x = Some 0
                               \<and> e_option_type x = Some ''XX'')
                     (expiries (fresh_load raw)) = [e])"
    using ie only by (intro exI[of _ i] exI[of _ e]) simp
qed

text \<open>The futures row, loaded with the option row: its expiries row is the first one,
  with strike price 0 and option type \<open>XX\<close>.\<close>

theorem futures_sentinel_witness:
  "scenario_a \<in> set [scenario_opt, scenario_a]
   \<and> r_instrument scenario_a \<noteq> None \<and> r_symbol scenario_a \<noteq> None
   \<and> r_expiry_dt scenario_a \<noteq> None
   \<and> r_strike_pr scenario_a = None \<and> r_option_typ scenario_a = None
   \<and> (\<exists>i e. filter (on_instrument (r_instrument scenario_a) (r_symbol scenario_a))
                   (instruments (fresh_load [scenario_opt, scenario_a])) = [i]
           \<and> filter (on_expiry scenario_a i) (expiries (fresh_load [scenario_opt, scenario_a])) = [e]
           \<and> e_strike_price e = Some 0 \<and> e_option_type e = Some ''XX'')"
proof -
  have h: "scenario_a \<in> set [scenario_opt, scenario_a]"
    "r_instrument scenario_a \<noteq> None" "r_symbol scenario_a \<noteq> None"
    "r_expiry_dt scenario_a \<noteq> None"
    and n: "r_strike_pr scenario_a = None" "r_option_typ scenario_a = None"
    by (simp_all add: scenario_a_def)
  from futures_sentinel[OF h] n h show ?thesis by blast
qed

text \<open>
  C7. After a first load every instruments row has series \<open>OPT\<close> when its instrument
  type contains \<open>OPT\<close> and \<open>FUT\<close> otherwise (a null type included); a source row
  with instrument \<open>FUTIDX\<close> gives an instruments row with series \<open>FUT\<close>.
\<close>

theorem series_from_instrument_type:
  "(\<forall>i\<in>set (instruments (insert_instruments raw d)).
       i \<in> set (instruments d)
       \<or> i_series i = Some (case i_instrument_type i of
                            None \<Rightarrow> ''FUT''
                          | Some s \<Rightarrow> if sublist ''OPT'' s then ''OPT'' else ''FUT''))
   \<and> (\<forall>i\<in>set (instruments (fresh_load raw)).
       i_series i = Some (case i_instrument_type i of
                            None \<Rightarrow> ''FUT''
                          | Some s \<Rightarrow> if sublist ''OPT'' s then ''OPT'' else ''FUT''))
   \<and> (\<forall>r\<in>set raw. r_instrument r = Some ''FUTIDX'' \<longrightarrow>
        (\<exists>i\<in>set (instruments (fresh_load raw)).
           i_instrument_type i = Some ''FUTIDX'' \<and> i_symbol i = r_symbol r
           \<and> i_series i = Some ''FUT''))"
proof (intro conjI ballI impI)
  fix i assume "i \<in> set (instruments (insert_instruments raw d))"
  then have "i \<in> set (instruments d) \<union> set (instrument_select raw)"
    using idn_subset[of instrument_conflict "instruments d" "instrument_select raw"]
    by (auto simp: insert_instruments_def)
  then show "i \<in> set (instruments d)
       \<or> i_series i = Some (case i_instrument_type i of
                            None \<Rightarrow> ''FUT''
                          | Some s \<Rightarrow> if sublist ''OPT'' s then ''OPT'' else ''FUT'')"
    using instrument_row_series by (auto simp: instrument_select_def)
next
  fix i assume "i \<in> set (instruments (fresh_load raw))"
  then obtain p where "i = instrument_row p"
    by (auto simp: fresh_load_tables instrument_select_def)
  then show "i_series i = Some (case i_instrument_type i of
                            None \<Rightarrow> ''FUT''
                          | Some s \<Rightarrow> if sublist ''OPT'' s then ''OPT'' else ''FUT'')"
    using instrument_row_series by simp
next
  fix r assume r: "r \<in> set raw" and f: "r_instrument r = Some ''FUTIDX''"
  have no: "\<not> sublist ''OPT'' ''FUTIDX''" by code_simp
  from instrument_for_pair[OF r] obtain n where
    n: "instrument_row (n, r_instrument r, r_symbol r) \<in> set (instrument_select raw)" ..
  show "\<exists>i\<in>set (instruments (fresh_load raw)).
           i_instrument_type i = Some ''FUTIDX'' \<and> i_symbol i = r_symbol r
           \<and> i_series i = Some ''FUT''"
    using n f no
    by (intro bexI[of _ "instrument_row (n, r_instrument r, r_symbol r)"])
       (simp_all add: fresh_load_tables sql_like_contains_def is_true_def)
qed

text \<open>The two sample rows: \<open>OPTSTK\<close> gives \<open>OPT\<close>, \<open>FUTIDX\<close> gives \<open>FUT\<close>.\<close>

theorem series_from_instrument_type_witness:
  "scenario_a \<in> set [scenario_a, scenario_opt]
   \<and> r_instrument scenario_a = Some ''FUTIDX''
   \<and> instruments (fresh_load [scenario_a, scenario_opt]) ! 1
       \<in> set (instruments (fresh_load [scenario_a, scenario_opt]))
   \<and> i_instrument_type (instruments (fresh_load [scenario_a, scenario_opt]) ! 1)
       = Some ''OPTSTK''
   \<and> i_series (instruments (fresh_load [scenario_a, scenario_opt]) ! 1) = Some ''OPT''
   \<and> i_instrument_type (instruments (fresh_load [scenario_a, scenario_opt]) ! 0)
       = Some ''FUTIDX''
   \<and> i_series (instruments (fresh_load [scenario_a, scenario_opt]) ! 0) = Some ''FUT''"
proof -
  have h: "scenario_a \<in> set [scenario_a, scenario_opt]"
    "r_instrument scenario_a = Some ''FUTIDX''"
    by (simp_all add: scenario_a_def)
  have t: "i_instrument_type (instruments (fresh_load [scenario_a, scenario_opt]) ! 1)
       = Some ''OPTSTK''"
    "i_instrument_type (instruments (fresh_load [scenario_a, scenario_opt]) ! 0)
       = Some ''FUTIDX''"
    by code_simp+
  have "length (instruments (fresh_load [scenario_a, scenario_opt])) = 2"
    by code_simp
  then have m: "instruments (fresh_load [scenario_a, scenario_opt]) ! 1
       \<in> set (instruments (fresh_load [scenario_a, scenario_opt]))"
    "instruments (fresh_load [scenario_a, scenario_opt]) ! 0
       \<in> set (instruments (fresh_load [scenario_a, scenario_opt]))"
    by (simp_all add: nth_mem)
  have s: "sublist ''OPT'' ''OPTSTK''" "\<not> sublist ''OPT'' ''FUTIDX''"
    by code_simp+
  from series_from_instrument_type[of "[scenario_a, scenario_opt]" empty_db]
  have "\<forall>i\<in>set (instruments (fresh_load [scenario_a, scenario_opt])).
       i_series i = Some (case i_instrument_type i of
                            None \<Rightarrow> ''FUT''
                          | Some s \<Rightarrow> if sublist ''OPT'' s then ''OPT'' else ''FUT'')"
    by blast
  with m have "i_series (instruments (fresh_load [scenario_a, scenario_opt]) ! 1) = Some ''OPT''"
    "i_series (instruments (fresh_load [scenario_a, scenario_opt]) ! 0) = Some ''FUT''"
    using t s by simp_all
  with h m t show ?thesis by simp
qed

text \<open>
  C8. The code does not do what the claim says. A source row whose \<open>EXPIRY_DT\<close> cell
  is not a date of the format makes \<open>strptime\<close> raise while \<open>raw_data\<close> is being
  created; \<open>TRY_CAST\<close> around it does not catch that. The exception leaves
  \<open>load_data_duckdb\<close> and \<open>main\<close>: the row is not skipped, the run ends with the
  exception and with the store as schema creation left it, no instrument, expiry or
  Trade row added for any row of the file.
\<close>

theorem malformed_expiry_aborts_load:
  assumes "c \<in> set csv" and "EXPIRY_DT c = Some s"
    and "strptime E s ''%d-%b-%Y'' = Inl e"
  shows "fst (main E csv d) \<noteq> None
     \<and> snd (main E csv d) = create_duckdb_schema d
     \<and> instruments (snd (main E csv d)) = instruments d
     \<and> expiries (snd (main E csv d)) = expiries d
     \<and> trades (snd (main E csv d)) = trades d"
proof -
  from assms(2,3) have "select_row E c = Inl e" by (rule select_row_bad_expiry)
  with assms(1) obtain e' where "create_raw_data E csv = Inl e'"
    using create_raw_data_raises by blast
  then have "main E csv d = (Some e', create_duckdb_schema d)" by (rule main_parse_error)
  then show ?thesis by simp
qed

text \<open>
  The futures row followed by a row with \<open>EXPIRY_DT = 32-Foo-2019\<close>, into a new store:
  the run raises and loads nothing. With the expiry date right the same two rows load
  without exception as two Trade rows, so the claim expects one Trade row here.
\<close>

theorem malformed_expiry_aborts_load_witness:
  "csv_bad_expiry \<in> set [csv_scenario_a, csv_bad_expiry]
   \<and> EXPIRY_DT csv_bad_expiry = Some ''32-Foo-2019''
   \<and> strptime sample_engine ''32-Foo-2019'' ''%d-%b-%Y'' = Inl InvalidInputError
   \<and> fst (main sample_engine [csv_scenario_a, csv_bad_expiry] empty_db)
       = Some InvalidInputError
   \<and> instruments (snd (main sample_engine [csv_scenario_a, csv_bad_expiry] empty_db)) = []
   \<and> expiries (snd (main sample_engine [csv_scenario_a, csv_bad_expiry] empty_db)) = []
   \<and> trades (snd (main sample_engine [csv_scenario_a, csv_bad_expiry] empty_db)) = []
   \<and> csv_bad_expiry\<lparr>EXPIRY_DT := Some ''29-Aug-2019''\<rparr> = csv_next_day
   \<and> fst (main sample_engine [csv_scenario_a, csv_next_day] empty_db) = None
   \<and> length (trades (snd (main sample_engine [csv_scenario_a, csv_next_day] empty_db))) = 2"
proof -
  have h: "csv_bad_expiry \<in> set [csv_scenario_a, csv_bad_expiry]"
    "EXPIRY_DT csv_bad_expiry = Some ''32-Foo-2019''"
    by (simp_all add: csv_bad_expiry_def)
  have p: "strptime sample_engine ''32-Foo-2019'' ''%d-%b-%Y'' = Inl InvalidInputError"
    by code_simp
  have e: "fst (main sample_engine [csv_scenario_a, csv_bad_expiry] empty_db)
       = Some InvalidInputError"
    by code_simp
  have c: "csv_bad_expiry\<lparr>EXPIRY_DT := Some ''29-Aug-2019''\<rparr> = csv_next_day"
    by (simp add: csv_bad_expiry_def csv_next_day_def csv_scenario_a_def)
  have g: "fst (main sample_engine [csv_scenario_a, csv_next_day] empty_db) = None"
    "length (trades (snd (main sample_engine [csv_scenario_a, csv_next_day] empty_db))) = 2"
    by code_simp+
  from malformed_expiry_aborts_load[OF h p, of empty_db] h p e c g
  show ?thesis by simp
qed



text \<open>
  C10. Every row the instruments insert adds has \<open>exchange_id = 1\<close>, whatever the
  source holds. After a first load the exchanges table is the three seeded rows, the
  only exchange an instrument refers to is the one with code \<open>NSE\<close>, and every Trade
  row reaches that exchange through its instrument.
\<close>

theorem instruments_on_nse_only:
  "(\<forall>i\<in>set (instruments (insert_instruments raw d)).
       i \<in> set (instruments d) \<or> i_exchange_id i = Some 1)
   \<and> (\<forall>i\<in>set (instruments (fresh_load raw)). i_exchange_id i = Some 1)
   \<and> map x_exchange_code (exchanges (fresh_load raw)) = [Some ''NSE'', Some ''BSE'', Some ''MCX'']
   \<and> (\<forall>i\<in>set (instruments (fresh_load raw)). \<forall>x\<in>set (exchanges (fresh_load raw)).
         i_exchange_id i = Some (x_exchange_id x) \<longrightarrow> x_exchange_code x = Some ''NSE'')
   \<and> (\<forall>t\<in>set (trades (fresh_load raw)).
         \<exists>i\<in>set (instruments (fresh_load raw)). \<exists>x\<in>set (exchanges (fresh_load raw)).
           t_instrument_id t = Some (i_instrument_id i)
           \<and> i_exchange_id i = Some (x_exchange_id x)
           \<and> x_exchange_code x = Some ''NSE'')"
proof (intro conjI ballI impI)
  fix i assume "i \<in> set (instruments (insert_instruments raw d))"
  then have "i \<in> set (instruments d) \<union> set (instrument_select raw)"
    using idn_subset[of instrument_conflict "instruments d" "instrument_select raw"]
    by (auto simp: insert_instruments_def)
  then show "i \<in> set (instruments d) \<or> i_exchange_id i = Some 1"
    by (auto simp: instrument_select_def)
next
  fix i assume "i \<in> set (instruments (fresh_load raw))"
  then show "i_exchange_id i = Some 1"
    by (auto simp: fresh_load_tables instrument_select_def)
next
  show "map x_exchange_code (exchanges (fresh_load raw)) = [Some ''NSE'', Some ''BSE'', Some ''MCX'']"
    by (simp add: fresh_load_tables seed_exchanges_def)
next
  fix i x assume "i \<in> set (instruments (fresh_load raw))"
    and "x \<in> set (exchanges (fresh_load raw))"
    and "i_exchange_id i = Some (x_exchange_id x)"
  then show "x_exchange_code x = Some ''NSE''"
    by (auto simp: fresh_load_tables instrument_select_def seed_exchanges_def)
next
  fix t assume "t \<in> set (trades (fresh_load raw))"
  from fresh_trade_members[OF this] obtain n r i e where
    t: "t = trade_row (n, r, i, e)" and i: "i \<in> set (instruments (fresh_load raw))" by blast
  from i have x1: "i_exchange_id i = Some 1"
    by (auto simp: fresh_load_tables instrument_select_def)
  let ?nse = "\<lparr>x_exchange_id = 1, x_exchange_code = Some ''NSE'',
       x_exchange_name = Some ''National Stock Exchange of India'',
       x_country = Some ''India'', x_is_active = Some True\<rparr>"
  have "?nse \<in> set (exchanges (fresh_load raw))"
    by (simp add: fresh_load_tables seed_exchanges_def)
  moreover have "t_instrument_id t = Some (i_instrument_id i)
           \<and> i_exchange_id i = Some (x_exchange_id ?nse)
           \<and> x_exchange_code ?nse = Some ''NSE''"
    using t x1 by simp
  ultimately show "\<exists>i\<in>set (instruments (fresh_load raw)). \<exists>x\<in>set (exchanges (fresh_load raw)).
           t_instrument_id t = Some (i_instrument_id i)
           \<and> i_exchange_id i = Some (x_exchange_id x)
           \<and> x_exchange_code x = Some ''NSE''"
    using i by blast
qed

text \<open>Both instruments of the two sample rows are on exchange 1.\<close>

theorem instruments_on_nse_only_witness:
  "instruments (fresh_load [scenario_a, scenario_opt]) ! 1
       \<in> set (instruments (fresh_load [scenario_a, scenario_opt]))
   \<and> i_exchange_id (instruments (fresh_load [scenario_a, scenario_opt]) ! 1) = Some 1
   \<and> map x_exchange_code (exchanges (fresh_load [scenario_a, scenario_opt]))
       = [Some ''NSE'', Some ''BSE'', Some ''MCX'']"
proof -
  have "length (instruments (fresh_load [scenario_a, scenario_opt])) = 2"
    by code_simp
  then have "instruments (fresh_load [scenario_a, scenario_opt]) ! 1
       \<in> set (instruments (fresh_load [scenario_a, scenario_opt]))"
    by (simp add: nth_mem)
  with instruments_on_nse_only[of "[scenario_a, scenario_opt]" empty_db] show ?thesis by blast
qed

end
